theory Spec2Isabelle
  imports Main
begin

section \<open>JavaScript values used by gir-module.ts\<close>

text \<open>
  Strings are lists of code units; the model keeps to code units below 256, which is
  all the regular expressions and separators of gir-module.ts look at.  An attribute
  or property that may be \<^verbatim>\<open>undefined\<close> is a \<open>string option\<close>.
\<close>

text \<open>The exceptions the modelled functions can raise: \<open>TypeError\<close> for reading a
  property of \<^verbatim>\<open>undefined\<close>, \<open>RangeError\<close> for a recursion that exhausts the
  call stack.\<close>

datatype error = TypeError | RangeError

text \<open>Truthiness of \<^verbatim>\<open>string | undefined\<close>: the empty string and
  \<^verbatim>\<open>undefined\<close> are falsy.\<close>

definition truthy :: "string option \<Rightarrow> bool" where
  "truthy e = (case e of None \<Rightarrow> False | Some s \<Rightarrow> s \<noteq> [])"

text \<open>A template literal prints \<^verbatim>\<open>undefined\<close> by its name.\<close>

definition js_str :: "string option \<Rightarrow> string" where
  "js_str e = (case e of None \<Rightarrow> ''undefined'' | Some s \<Rightarrow> s)"

subsection \<open>parseInt\<close>

text \<open>
  \<^verbatim>\<open>parseInt(s)\<close> with no radix (ECMAScript, sec-parseint-string-radix): leading
  white space is dropped, then an optional sign, then an optional \<^verbatim>\<open>0x\<close>/\<^verbatim>\<open>0X\<close>
  prefix that selects radix 16; the longest prefix of digits of the radix is read and
  everything after it is ignored; no digit at all gives \<^verbatim>\<open>NaN\<close>, here \<open>None\<close>.
  The result is the mathematical integer: gir-module.ts only compares it with 0, and the
  rounding of a long digit string to a double never turns a non-zero integer into 0
  (nor 0 into anything else; \<^verbatim>\<open>-0 === 0\<close> holds).
\<close>

definition isWhiteSpace :: "char \<Rightarrow> bool" where
  "isWhiteSpace c = (of_char c \<in> {9, 10, 11, 12, 13, 32, 160 :: nat})"

definition digitVal :: "char \<Rightarrow> nat option" where
  "digitVal c =
     (let n = (of_char c :: nat) in
      if 48 \<le> n \<and> n \<le> 57 then Some (n - 48)
      else if 97 \<le> n \<and> n \<le> 102 then Some (n - 87)
      else if 65 \<le> n \<and> n \<le> 70 then Some (n - 55)
      else None)"

definition isDigit :: "nat \<Rightarrow> char \<Rightarrow> bool" where
  "isDigit R c = (case digitVal c of None \<Rightarrow> False | Some d \<Rightarrow> d < R)"

definition digitsValue :: "nat \<Rightarrow> string \<Rightarrow> int" where
  "digitsValue R Z = foldl (\<lambda>acc c. acc * int R + int (the (digitVal c))) 0 Z"

definition parseDigits :: "nat \<Rightarrow> string \<Rightarrow> int option" where
  "parseDigits R S =
     (let Z = takeWhile (isDigit R) S in
      if Z = [] then None else Some (digitsValue R Z))"

definition parseInt :: "string \<Rightarrow> int option" where
  "parseInt inputString =
     (let S = dropWhile isWhiteSpace inputString;
          sign = (if S \<noteq> [] \<and> hd S = CHR ''-'' then - 1 else 1 :: int);
          S1 = (if S \<noteq> [] \<and> (hd S = CHR ''+'' \<or> hd S = CHR ''-'') then tl S else S);
          hex = (take 2 S1 = ''0x'' \<or> take 2 S1 = ''0X'');
          R = (if hex then 16 else 10);
          S2 = (if hex then drop 2 S1 else S1)
      in map_option (\<lambda>mathInt. sign * mathInt) (parseDigits R S2))"

subsection \<open>girBool (gir-module.ts, lines 371-377)\<close>

definition girBool :: "string option \<Rightarrow> bool \<Rightarrow> bool" where
  "girBool e defaultVal =
     (if truthy e then
        (if parseInt (the e) = Some 0 then False else True)
      else defaultVal)"

section \<open>Parsed GIR nodes\<close>

text \<open>
  The XML parser hands every element over as an object: \<^verbatim>\<open>$\<close> holds the
  attributes and is missing when the element has none, and every child tag names the
  array of the children with that tag.  gir-module.ts then stamps \<^verbatim>\<open>_module\<close>
  and \<^verbatim>\<open>_fullSymName\<close> on constructs; of the module object only its name
  is ever read back from a node, so \<open>node_module\<close> keeps that name.  The interfaces
  GirVariable, GirFunction, GirClass, ... of types.ts are views of such objects, and
  the code casts between them freely, so one node type models all of them.
\<close>

datatype GirNode =
  GirNode (attrs: "(string \<times> string) list option")
          (children: "(string \<times> GirNode list) list")
          (node_module: "string option")
          (fullSymName: "string option")

text \<open>\<^verbatim>\<open>n.$?.k\<close>: an attribute read that is guarded against a missing \<^verbatim>\<open>$\<close>.\<close>

definition attr :: "GirNode \<Rightarrow> string \<Rightarrow> string option" where
  "attr n k = (case attrs n of None \<Rightarrow> None | Some a \<Rightarrow> map_of a k)"

text \<open>\<^verbatim>\<open>n[tag]\<close>: the array of children with that tag, if any.\<close>

definition kids :: "GirNode \<Rightarrow> string \<Rightarrow> GirNode list option" where
  "kids n tag = map_of (children n) tag"

definition stamp :: "string \<Rightarrow> string \<Rightarrow> GirNode \<Rightarrow> GirNode" where
  "stamp modName symName n = GirNode (attrs n) (children n) (Some modName) (Some symName)"

type_synonym SymTable = "string \<rightharpoonup> GirNode"

section \<open>Populating the symbol table (gir-module.ts, lines 159-178)\<close>

text \<open>
  The state threaded through the loop is the dictionary and the warnings logged so far.
  \<open>name\<close> is \<^verbatim>\<open>this.name\<close>.  A symbol name always contains a dot, so it never
  meets a property that a JavaScript object inherits: the dictionary is a plain map.
\<close>

definition loadTypesInternal_step ::
    "string \<Rightarrow> SymTable \<times> string list \<Rightarrow> GirNode \<Rightarrow> SymTable \<times> string list" where
  "loadTypesInternal_step name st girConstruct =
     (case attrs girConstruct of
        None \<Rightarrow> st
      | Some a \<Rightarrow>
          if truthy (map_of a ''introspectable'') \<and> \<not> girBool (map_of a ''introspectable'') True
          then st
          else
            (let symName = name @ ''.'' @ js_str (map_of a ''name'');
                 dict = fst st;
                 log = (if dict symName \<noteq> None
                        then snd st @ [''Duplicate symbol: '' @ symName] else snd st)
             in (dict(symName \<mapsto> stamp name symName girConstruct), log)))"

definition loadTypesInternal ::
    "string \<Rightarrow> SymTable \<times> string list \<Rightarrow> GirNode list option \<Rightarrow> SymTable \<times> string list" where
  "loadTypesInternal name st girConstructs =
     (case girConstructs of
        None \<Rightarrow> st
      | Some cs \<Rightarrow> foldl (loadTypesInternal_step name) st cs)"

subsection \<open>Properties of the symbol table\<close>

text \<open>The key under which a construct is stored (line 166), and the constructs the loop
  passes over: those with no attributes, and those whose \<^verbatim>\<open>introspectable\<close>
  attribute is present and decodes to false (lines 162-165).\<close>

definition symNameOf :: "string \<Rightarrow> GirNode \<Rightarrow> string" where
  "symNameOf name c = name @ ''.'' @ js_str (attr c ''name'')"

definition passedOver :: "GirNode \<Rightarrow> bool" where
  "passedOver c =
     (attrs c = None \<or>
      (truthy (attr c ''introspectable'') \<and> \<not> girBool (attr c ''introspectable'') True))"

lemma loadTypesInternal_snoc:
  "loadTypesInternal name st (Some (cs @ [c])) =
     loadTypesInternal_step name (loadTypesInternal name st (Some cs)) c"
  by (simp add: loadTypesInternal_def)

lemma loadTypesInternal_step_insert:
  "\<not> passedOver c \<Longrightarrow>
   loadTypesInternal_step name st c =
     ((fst st)(symNameOf name c \<mapsto> stamp name (symNameOf name c) c),
      if fst st (symNameOf name c) \<noteq> None
      then snd st @ [''Duplicate symbol: '' @ symNameOf name c] else snd st)"
  by (auto simp: loadTypesInternal_step_def passedOver_def symNameOf_def attr_def Let_def
           split: option.splits)

lemma loadTypesInternal_step_skip:
  "passedOver c \<Longrightarrow> loadTypesInternal_step name st c = st"
  by (auto simp: loadTypesInternal_step_def passedOver_def attr_def split: option.splits)

definition first_Foo :: GirNode where
  "first_Foo = GirNode (Some [(''name'', ''Foo''), (''c:type'', ''First'')]) [] None None"

definition second_Foo :: GirNode where
  "second_Foo = GirNode (Some [(''name'', ''Foo''), (''c:type'', ''Second'')]) [] None None"

text \<open>
  Claim C1, as stated: a second insertion under a name already present keeps the first
  entry.  It fails on the code: line 174 stores the construct whether or not line 167
  found the name, so after two constructs named \<open>Foo\<close> the table holds the second
  one, and the warning has been logged.
\<close>

theorem C1_counterexample:
  "fst (loadTypesInternal ''M'' (Map.empty, []) (Some [first_Foo, second_Foo])) ''M.Foo''
     \<noteq> Some (stamp ''M'' ''M.Foo'' first_Foo)
   \<and> fst (loadTypesInternal ''M'' (Map.empty, []) (Some [first_Foo, second_Foo])) ''M.Foo''
     = Some (stamp ''M'' ''M.Foo'' second_Foo)
   \<and> snd (loadTypesInternal ''M'' (Map.empty, []) (Some [first_Foo, second_Foo]))
     = [''Duplicate symbol: M.Foo'']"
  by (simp add: loadTypesInternal_def loadTypesInternal_step_def first_Foo_def second_Foo_def
        truthy_def js_str_def Let_def stamp_def)

text \<open>
  Claim C1, amended: for every sequence of insertions \<open>cs\<close>, when a construct
  \<open>c\<close> that the loop does not pass over is inserted next and its fully-qualified name
  is already present, the insertion logs \<^verbatim>\<open>Duplicate symbol: <name>\<close> and the table
  then maps the name to \<open>c\<close>, the construct inserted last, stamped with its module and
  name; every other entry stays as it was.
\<close>

theorem C1_duplicate_insertion_keeps_last:
  assumes "\<not> passedOver c"
    and "fst (loadTypesInternal name st0 (Some cs)) (symNameOf name c) \<noteq> None"
  shows "loadTypesInternal name st0 (Some (cs @ [c])) =
           ((fst (loadTypesInternal name st0 (Some cs)))
              (symNameOf name c \<mapsto> stamp name (symNameOf name c) c),
            snd (loadTypesInternal name st0 (Some cs))
              @ [''Duplicate symbol: '' @ symNameOf name c])"
  using assms by (simp add: loadTypesInternal_snoc loadTypesInternal_step_insert)

theorem C1_duplicate_insertion_keeps_last_witness:
  "\<not> passedOver second_Foo
   \<and> fst (loadTypesInternal ''M'' (Map.empty, []) (Some [first_Foo])) (symNameOf ''M'' second_Foo) \<noteq> None
   \<and> loadTypesInternal ''M'' (Map.empty, []) (Some ([first_Foo] @ [second_Foo])) =
       ((fst (loadTypesInternal ''M'' (Map.empty, []) (Some [first_Foo])))
           (''M.Foo'' \<mapsto> stamp ''M'' ''M.Foo'' second_Foo),
        [''Duplicate symbol: M.Foo''])"
proof -
  have h1: "\<not> passedOver second_Foo"
    by (simp add: passedOver_def second_Foo_def attr_def truthy_def)
  have n: "symNameOf ''M'' second_Foo = ''M.Foo''"
    by (simp add: symNameOf_def second_Foo_def attr_def js_str_def)
  have h2: "fst (loadTypesInternal ''M'' (Map.empty, []) (Some [first_Foo])) (symNameOf ''M'' second_Foo) \<noteq> None"
    by (simp add: n loadTypesInternal_def loadTypesInternal_step_def first_Foo_def
        truthy_def js_str_def Let_def)
  have l: "snd (loadTypesInternal ''M'' (Map.empty, []) (Some [first_Foo])) = []"
    by (simp add: loadTypesInternal_def loadTypesInternal_step_def first_Foo_def
        truthy_def js_str_def Let_def)
  show ?thesis
    using h1 h2 C1_duplicate_insertion_keeps_last [OF h1 h2] by (simp add: n l)
qed

lemma girBool_present: "s \<noteq> [] \<Longrightarrow> girBool (Some s) d = (parseInt s \<noteq> Some 0)"
  by (simp add: girBool_def truthy_def)

text \<open>
  Claim C10: a present (non-empty) attribute string is decoded by \<^verbatim>\<open>parseInt\<close>:
  \<open>girBool\<close> is false exactly when the string parses to the integer 0 and true for
  every other non-empty string, whatever the default.  Hence a construct whose
  \<^verbatim>\<open>introspectable\<close> attribute parses to 0 is passed over by the symbol table
  loop and any other one (such as \<^verbatim>\<open>"false"\<close>, which parses to NaN) is stored;
  \<^verbatim>\<open>"0"\<close> and \<^verbatim>\<open>"00"\<close> parse to 0.
\<close>

theorem C10_girBool_integer_parsing:
  assumes "s \<noteq> []"
  shows "(girBool (Some s) d = False \<longleftrightarrow> parseInt s = Some 0)
       \<and> (girBool (Some s) d = True \<longleftrightarrow> parseInt s \<noteq> Some 0)
       \<and> (attr c ''introspectable'' = Some s \<longrightarrow>
            (if parseInt s = Some 0
             then loadTypesInternal_step name st c = st
             else fst (loadTypesInternal_step name st c) (symNameOf name c)
                    = Some (stamp name (symNameOf name c) c)))
       \<and> parseInt ''false'' = None \<and> parseInt ''0'' = Some 0 \<and> parseInt ''00'' = Some 0"
proof -
  have a: "girBool (Some s) d = (parseInt s \<noteq> Some 0)"
    using assms by (rule girBool_present)
  have b: "attr c ''introspectable'' = Some s \<Longrightarrow> parseInt s = Some 0 \<Longrightarrow>
             loadTypesInternal_step name st c = st"
    using assms by (simp add: loadTypesInternal_step_skip passedOver_def truthy_def girBool_present)
  have c: "attr c ''introspectable'' = Some s \<Longrightarrow> parseInt s \<noteq> Some 0 \<Longrightarrow>
             fst (loadTypesInternal_step name st c) (symNameOf name c)
                    = Some (stamp name (symNameOf name c) c)"
  proof -
    assume i: "attr c ''introspectable'' = Some s" and p: "parseInt s \<noteq> Some 0"
    from i have "attrs c \<noteq> None" by (auto simp: attr_def split: option.splits)
    with i p assms have "\<not> passedOver c"
      by (simp add: passedOver_def truthy_def girBool_present)
    then show ?thesis by (simp add: loadTypesInternal_step_insert)
  qed
  have d: "parseInt ''false'' = None" by code_simp
  have e: "parseInt ''0'' = Some 0" by code_simp
  have f: "parseInt ''00'' = Some 0" by code_simp
  from a b c d e f show ?thesis by simp
qed

definition nonIntrospectable :: "string \<Rightarrow> GirNode" where
  "nonIntrospectable s = GirNode (Some [(''name'', ''X''), (''introspectable'', s)]) [] None None"

theorem C10_girBool_integer_parsing_witness:
  "girBool (Some ''false'') True = True
   \<and> fst (loadTypesInternal_step ''M'' (Map.empty, []) (nonIntrospectable ''false'')) ''M.X''
       = Some (stamp ''M'' ''M.X'' (nonIntrospectable ''false''))
   \<and> girBool (Some ''00'') True = False
   \<and> loadTypesInternal_step ''M'' (Map.empty, []) (nonIntrospectable ''00'') = (Map.empty, [])"
proof -
  have n: "symNameOf ''M'' (nonIntrospectable s) = ''M.X''" for s
    by (simp add: symNameOf_def nonIntrospectable_def attr_def js_str_def)
  have i: "attr (nonIntrospectable s) ''introspectable'' = Some s" for s
    by (simp add: nonIntrospectable_def attr_def)
  have f: "''false'' \<noteq> []" and z: "''00'' \<noteq> []" by simp_all
  show ?thesis
    using C10_girBool_integer_parsing [OF f, of True "nonIntrospectable ''false''" "''M''" "(Map.empty, [])"]
      C10_girBool_integer_parsing [OF z, of True "nonIntrospectable ''00''" "''M''" "(Map.empty, [])"]
    by (simp add: n i)
qed

section \<open>String operations of JavaScript\<close>

text \<open>\<^verbatim>\<open>s.split(c)\<close> for a one-character separator: always at least one piece.\<close>

definition split :: "char \<Rightarrow> string \<Rightarrow> string list" where
  "split c s =
     foldr (\<lambda>x pieces. if x = c then [] # pieces else (x # hd pieces) # tl pieces) s [[]]"

text \<open>\<^verbatim>\<open>a.join(sep)\<close>.\<close>

fun join :: "string \<Rightarrow> string list \<Rightarrow> string" where
  "join sep [] = []"
| "join sep [x] = x"
| "join sep (x # y # ys) = x @ sep @ join sep (y # ys)"

text \<open>The line terminators that \<^verbatim>\<open>.\<close> of a regular expression does not match
  (of those below 256).\<close>

definition isLineTerminator :: "char \<Rightarrow> bool" where
  "isLineTerminator c = (of_char c \<in> {10, 13 :: nat})"

text \<open>The character class \<^verbatim>\<open>[0-9a-zA-Z_]\<close>.\<close>

definition isWordChar :: "char \<Rightarrow> bool" where
  "isWordChar c =
     (let n = (of_char c :: nat) in
      (48 \<le> n \<and> n \<le> 57) \<or> (97 \<le> n \<and> n \<le> 122) \<or> (65 \<le> n \<and> n \<le> 90) \<or> n = 95)"

section \<open>Canonical signatures (gir-module.ts, lines 79-81, 885-896, 1027-1039)\<close>

text \<open>
  \<^verbatim>\<open>f.replace(/\/\*.*\*\//g, '')\<close>.  At the leftmost \<^verbatim>\<open>/*\<close> the greedy
  \<^verbatim>\<open>.*\<close> runs to the end of the line and backtracks to the last \<^verbatim>\<open>*/\<close>
  of that line; everything up to there is removed and the search goes on behind it.
  \<open>lastClose line\<close> is the offset of that last \<^verbatim>\<open>*/\<close> in the rest of the line.
\<close>

definition lastClose :: "string \<Rightarrow> nat option" where
  "lastClose line =
     (case filter (\<lambda>k. take 2 (drop k line) = ''*/'') (rev [0..<length line]) of
        [] \<Rightarrow> None
      | k # _ \<Rightarrow> Some k)"

function replace_commentRegExp :: "string \<Rightarrow> string" where
  "replace_commentRegExp s =
     (case s of
        [] \<Rightarrow> []
      | c # cs \<Rightarrow>
          if take 2 s = ''/*'' then
            (case lastClose (takeWhile (\<lambda>x. \<not> isLineTerminator x) (drop 2 s)) of
               Some k \<Rightarrow> replace_commentRegExp (drop (2 + k + 2) s)
             | None \<Rightarrow> c # replace_commentRegExp cs)
          else c # replace_commentRegExp cs)"
  by pat_completeness auto
termination
  by (relation "measure length") auto

declare replace_commentRegExp.simps [simp del]

text \<open>
  \<^verbatim>\<open>params.replace(/[0-9a-zA-Z_]*:/g, ':')\<close> and
  \<^verbatim>\<open>params.replace(/[0-9a-zA-Z_]*\?:/g, '?:')\<close>: a maximal run of word characters
  is dropped when the suffix (\<^verbatim>\<open>:\<close> or \<^verbatim>\<open>?:\<close>) follows it; a run followed
  by anything else cannot match at any of its positions and is kept with the character
  after it.
\<close>

function replace_names :: "string \<Rightarrow> string \<Rightarrow> string" where
  "replace_names sfx s =
     (let run = takeWhile isWordChar s; rest = dropWhile isWordChar s in
      if sfx \<noteq> [] \<and> take (length sfx) rest = sfx
      then sfx @ replace_names sfx (drop (length sfx) rest)
      else (case rest of
              [] \<Rightarrow> run
            | c # rest' \<Rightarrow> run @ c # replace_names sfx rest'))"
  by pat_completeness auto
termination
proof (relation "measure (\<lambda>(sfx, s). length s)")
  show "wf (measure (\<lambda>(sfx, s). length s))" by simp
next
  fix sfx s :: string and run rest
  assume r: "rest = dropWhile isWordChar s"
    and m: "sfx \<noteq> [] \<and> take (length sfx) rest = sfx"
  have "length (drop (length sfx) rest) < length rest"
    using m by (cases sfx; cases rest) auto
  moreover have "length rest \<le> length s"
    unfolding r by (rule length_dropWhile_le)
  ultimately show "((sfx, drop (length sfx) rest), (sfx, s)) \<in> measure (\<lambda>(sfx, s). length s)"
    by simp
next
  fix sfx s :: string and run rest c rest'
  assume r: "rest = dropWhile isWordChar s" and c: "rest = c # rest'"
  have "length rest \<le> length s"
    unfolding r by (rule length_dropWhile_le)
  then show "((sfx, rest'), (sfx, s)) \<in> measure (\<lambda>(sfx, s). length s)"
    using c by simp
qed

declare replace_names.simps [simp del]

definition replace_paramRegExp :: "string \<Rightarrow> string" where
  "replace_paramRegExp = replace_names '':''"

definition replace_optParamRegExp :: "string \<Rightarrow> string" where
  "replace_optParamRegExp = replace_names ''?:''"

text \<open>
  \<open>stripParamNames\<close> returns what it printed on the console and either its result or
  the exception it raised.  \<^verbatim>\<open>f.split('(', 2)\<close> keeps the first two pieces only.
  When there is no \<^verbatim>\<open>(\<close>, \<^verbatim>\<open>lb[1]\<close> is \<^verbatim>\<open>undefined\<close> and line 890 calls
  \<^verbatim>\<open>split\<close> on it.
\<close>

definition stripParamNames :: "string \<Rightarrow> bool \<Rightarrow> string list \<times> (error + string)" where
  "stripParamNames f ignoreTail =
     (let g = f;
          f1 = replace_commentRegExp f;
          lb = take 2 (split CHR ''('' f1)
      in if length lb < 2 then ([''Bad function definition '' @ g], Inl TypeError)
         else
           (let rb = split CHR '')'' (lb ! 1);
                tail = (if ignoreTail then [] else last rb);
                params = join '')'' (butlast rb);
                params1 = replace_paramRegExp params;
                params2 = replace_optParamRegExp params1
            in ([], Inr (lb ! 0 @ ''('' @ params2 @ '')'' @ tail))))"

text \<open>
  \<open>functionSignaturesMatch\<close> on two arrays of declarations (a single string is wrapped
  into an array by lines 1028-1033).  Each comparison strips the left string first; an
  exception ends the loop.
\<close>

fun functionSignaturesMatch_loop ::
    "string list \<Rightarrow> string list \<Rightarrow> string list \<times> (error + bool)" where
  "functionSignaturesMatch_loop (a # as) (b # bs) =
     (case stripParamNames a False of
        (out1, Inl e) \<Rightarrow> (out1, Inl e)
      | (out1, Inr s1) \<Rightarrow>
          (case stripParamNames b False of
             (out2, Inl e) \<Rightarrow> (out1 @ out2, Inl e)
           | (out2, Inr s2) \<Rightarrow>
               if s1 \<noteq> s2 then (out1 @ out2, Inr False)
               else (case functionSignaturesMatch_loop as bs of
                       (out3, r) \<Rightarrow> (out1 @ out2 @ out3, r))))"
| "functionSignaturesMatch_loop _ _ = ([], Inr True)"

definition functionSignaturesMatch ::
    "string list \<Rightarrow> string list \<Rightarrow> string list \<times> (error + bool)" where
  "functionSignaturesMatch f1 f2 =
     (if length f1 \<noteq> length f2 then ([], Inr False)
      else functionSignaturesMatch_loop f1 f2)"

subsection \<open>Properties of the canonical signature\<close>

lemma split_length: "length (split c s) = Suc (length (filter (\<lambda>x. x = c) s))"
  unfolding split_def by (induction s) auto

lemma stripParamNames_raises_iff:
  "snd (stripParamNames f ignoreTail) = Inl TypeError
     \<longleftrightarrow> CHR ''('' \<notin> set (replace_commentRegExp f)"
proof -
  have "length (split CHR ''('' (replace_commentRegExp f)) < 2
          \<longleftrightarrow> CHR ''('' \<notin> set (replace_commentRegExp f)"
    by (auto simp: split_length filter_empty_conv)
  moreover have "length (take 2 xs) < 2 \<longleftrightarrow> length xs < 2" for xs :: "string list"
    by auto
  ultimately show ?thesis
    by (simp add: stripParamNames_def Let_def del: length_take)
qed

text \<open>
  Claim C8 says that canonicalization warns about a string with no parenthesized
  parameter list and goes on to return a result.  The code prints the warning and then
  raises: for \<^verbatim>\<open>foo\<close> line 889 prints \<^verbatim>\<open>Bad function definition foo\<close> and
  line 890 reads \<^verbatim>\<open>lb[1].split\<close> with \<^verbatim>\<open>lb[1]\<close> undefined, and the
  comparison of two such declarations ends with the same exception.
\<close>

theorem C8_stripParamNames_raises:
  "stripParamNames ''foo'' False = ([''Bad function definition foo''], Inl TypeError)
   \<and> functionSignaturesMatch [''foo''] [''foo'']
       = ([''Bad function definition foo''], Inl TypeError)"
  by (simp add: functionSignaturesMatch_def stripParamNames_def split_def
        replace_commentRegExp.simps)

section \<open>The module object\<close>

text \<open>
  transformation.ts is not among the sources.  Its functions and tables are parameters
  of the model, with the types gir-module.ts uses them at; an argument that may be
  \<^verbatim>\<open>undefined\<close> is passed as it is.  The tables answer a lookup with the string
  stored under the key, if any.
\<close>

record Transformation =
  transformClassName :: "string option \<Rightarrow> string"
  transformTypeName :: "string \<Rightarrow> string"
  transformParameterName :: "string \<Rightarrow> bool \<Rightarrow> string"
  transformFunctionName :: "string option \<Rightarrow> string"
  transformPropertyName :: "string \<Rightarrow> bool \<Rightarrow> string"
  transformConstantName :: "string \<Rightarrow> bool \<Rightarrow> string"
  transformFieldName :: "string \<Rightarrow> bool \<Rightarrow> string"
  POD_TYPE_MAP :: "string \<rightharpoonup> string"
  POD_TYPE_MAP_ARRAY :: "string \<Rightarrow> string \<rightharpoonup> string"
  C_TYPE_MAP :: "string \<Rightarrow> string \<Rightarrow> string \<rightharpoonup> string"
  FULL_TYPE_MAP :: "string \<Rightarrow> bool \<Rightarrow> string \<rightharpoonup> string"

text \<open>
  The fields of \<^verbatim>\<open>this\<close> that the modelled methods read.  \<open>Number_index\<close>
  stands for the built-in \<^verbatim>\<open>Number(s)\<close> where its result is used as an array index:
  the index it denotes, if it denotes one.  (The conversion of a decimal literal to a
  double is not modelled.)
\<close>

record GirModule =
  modName :: string
  packageName :: string
  symTable :: SymTable
  patch :: "string \<rightharpoonup> string list"
  ns :: GirNode
  environment :: string
  inheritance :: bool
  transformation :: Transformation
  Number_index :: "string \<Rightarrow> nat option"

section \<open>Class details (gir-module.ts, lines 983-1020)\<close>

record ClassDetails =
  cd_name :: string
  qualifiedName :: string
  parentName :: "string option"
  qualifiedParentName :: "string option"
  localParentName :: "string option"

text \<open>\<^verbatim>\<open>girClass.prerequisite[0].$.name\<close>: raises when the array is empty or its first
  element has no attributes.\<close>

definition prerequisiteName :: "GirNode list \<Rightarrow> error + string option" where
  "prerequisiteName ps =
     (case ps of
        [] \<Rightarrow> Inl TypeError
      | p # _ \<Rightarrow> (case attrs p of None \<Rightarrow> Inl TypeError | Some a \<Rightarrow> Inr (map_of a ''name'')))"

definition getClassDetails :: "GirModule \<Rightarrow> GirNode \<Rightarrow> error + ClassDetails option" where
  "getClassDetails this girClass =
     (case attrs girClass of
        None \<Rightarrow> Inr None
      | Some a \<Rightarrow>
          (let owner = (case node_module girClass of Some m \<Rightarrow> m | None \<Rightarrow> modName this);
               name0 = transformClassName (transformation this) (map_of a ''name'');
               qualified = (if CHR ''.'' \<notin> set name0 then owner @ ''.'' @ name0 else name0);
               name = (if CHR ''.'' \<notin> set name0 then name0 else last (split CHR ''.'' name0))
           in case (case kids girClass ''prerequisite'' of
                      Some ps \<Rightarrow> prerequisiteName ps
                    | None \<Rightarrow> Inr (if truthy (map_of a ''parent'') then map_of a ''parent''
                                    else None)) of
                Inl e \<Rightarrow> Inl e
              | Inr parentName0 \<Rightarrow>
                  Inr (Some
                    (if truthy parentName0 then
                       (let pn = the parentName0 in
                        if CHR ''.'' \<notin> set pn then
                          \<lparr> cd_name = name, qualifiedName = qualified,
                            parentName = Some pn,
                            qualifiedParentName = Some (owner @ ''.'' @ pn),
                            localParentName = Some pn \<rparr>
                        else
                          (let sp = split CHR ''.'' pn;
                               parentModName = join ''.'' (butlast sp)
                           in \<lparr> cd_name = name, qualifiedName = qualified,
                                parentName = Some (last sp),
                                qualifiedParentName = Some pn,
                                localParentName =
                                  Some (if parentModName = owner then last sp else pn) \<rparr>))
                     else
                       \<lparr> cd_name = name, qualifiedName = qualified,
                         parentName = parentName0,
                         qualifiedParentName = None,
                         localParentName = None \<rparr>))))"

section \<open>The inheritance walk (gir-module.ts, lines 40, 656-707)\<close>

definition MAXIMUM_RECUSION_DEPTH :: nat where
  "MAXIMUM_RECUSION_DEPTH = 100"

text \<open>Lines 673-680: the parent the walk would go to.\<close>

definition traverse_parentPtr :: "GirModule \<Rightarrow> ClassDetails \<Rightarrow> GirNode option" where
  "traverse_parentPtr this details =
     (if truthy (parentName details) \<and> truthy (qualifiedParentName details) then
        (case symTable this (the (qualifiedParentName details)) of
           Some p \<Rightarrow> Some p
         | None \<Rightarrow>
             if parentName details = Some ''Object'' then symTable this ''GObject.Object''
             else None)
      else None)"

text \<open>Lines 682-691: the parent's own parent, qualified with the parent's module, is
  compared with the \<^verbatim>\<open>_fullSymName\<close> of the class the walk stands at.  The result is
  the name in the warning, if the check fires.\<close>

definition traverse_circular :: "GirNode option \<Rightarrow> GirNode \<Rightarrow> string option" where
  "traverse_circular parentPtr girClass =
     (case parentPtr of
        None \<Rightarrow> None
      | Some p \<Rightarrow>
          (case attr p ''parent'' of
             None \<Rightarrow> None
           | Some pp \<Rightarrow>
               (let next_parent =
                      (if CHR ''.'' \<notin> set pp \<and> truthy (node_module p)
                       then the (node_module p) @ ''.'' @ pp else pp)
                in if Some next_parent = fullSymName girClass then Some next_parent else None)))"

text \<open>
  The walk returns the classes the callback was called with, in order, the warnings it
  logged, and the exception that ended it, if one did.  The callback does not change
  what the walk reads, so its effect is the fold of the caller's function over the first
  component.  Line 669 reads \<^verbatim>\<open>name.indexOf\<close> of the class's name attribute and
  raises when there is none.
\<close>

function traverseInheritanceTree ::
    "GirModule \<Rightarrow> GirNode \<Rightarrow> nat \<Rightarrow> bool \<Rightarrow> GirNode list \<times> string list \<times> error option" where
  "traverseInheritanceTree this girClass depth recursive =
     (case getClassDetails this girClass of
        Inl e \<Rightarrow> ([], [], Some e)
      | Inr None \<Rightarrow> ([], [], None)
      | Inr (Some details) \<Rightarrow>
          if attr girClass ''name'' = None then ([], [], Some TypeError)
          else
            (let parentPtr = traverse_parentPtr this details;
                 circular = traverse_circular parentPtr girClass;
                 log1 = (case circular of
                           Some next_parent \<Rightarrow>
                             [''Circular dependency found! Ignore next parent \"''
                                @ next_parent @ ''\".'']
                         | None \<Rightarrow> []);
                 recursive1 = (recursive \<and> circular = None)
             in if depth \<ge> MAXIMUM_RECUSION_DEPTH then
                  ([girClass],
                   log1 @ [''Maximum recursion depth of 100 reached for \"''
                             @ js_str (attr girClass ''name'') @ ''\"''],
                   None)
                else if parentPtr \<noteq> None \<and> recursive1 \<and> depth \<le> MAXIMUM_RECUSION_DEPTH then
                  (case traverseInheritanceTree this (the parentPtr) (Suc depth) recursive1 of
                     (visited, log2, e) \<Rightarrow> (girClass # visited, log1 @ log2, e))
                else ([girClass], log1, None)))"
  by pat_completeness auto
termination
  by (relation "measure (\<lambda>(this, girClass, depth, recursive). MAXIMUM_RECUSION_DEPTH - depth)")
     (auto simp: MAXIMUM_RECUSION_DEPTH_def)

declare traverseInheritanceTree.simps [simp del]


subsection \<open>A small module for the examples\<close>

definition plainTransformation :: Transformation where
  "plainTransformation =
     \<lparr> transformClassName = js_str, transformTypeName = (\<lambda>n. n),
       transformParameterName = (\<lambda>n b. n), transformFunctionName = js_str,
       transformPropertyName = (\<lambda>n b. n), transformConstantName = (\<lambda>n b. n),
       transformFieldName = (\<lambda>n b. n),
       POD_TYPE_MAP = Map.empty, POD_TYPE_MAP_ARRAY = (\<lambda>env. Map.empty),
       C_TYPE_MAP = (\<lambda>p s. Map.empty), FULL_TYPE_MAP = (\<lambda>env out. Map.empty) \<rparr>"

definition classNode :: "string \<Rightarrow> string \<Rightarrow> string \<Rightarrow> GirNode" where
  "classNode m n p =
     GirNode (Some [(''name'', n), (''parent'', p)]) [] (Some m) (Some (m @ ''.'' @ n))"

definition moduleOf :: "(string \<times> GirNode) list \<Rightarrow> GirModule" where
  "moduleOf table =
     \<lparr> modName = ''M'', packageName = ''M-1.0'', symTable = map_of table, patch = Map.empty,
       ns = GirNode None [] None None, environment = ''gjs'', inheritance = False,
       transformation = plainTransformation, Number_index = (\<lambda>s. None) \<rparr>"

text \<open>A declares parent B, B declares parent C, C declares parent A.\<close>

definition threeCycle :: GirModule where
  "threeCycle = moduleOf
     [(''M.A'', classNode ''M'' ''A'' ''B''),
      (''M.B'', classNode ''M'' ''B'' ''C''),
      (''M.C'', classNode ''M'' ''C'' ''A'')]"

text \<open>A declares parent B, B declares parent A.\<close>

definition twoCycle :: GirModule where
  "twoCycle = moduleOf
     [(''M.A'', classNode ''M'' ''A'' ''B''),
      (''M.B'', classNode ''M'' ''B'' ''A'')]"

lemma traverseInheritanceTree_bound_reached:
  "MAXIMUM_RECUSION_DEPTH \<le> depth \<Longrightarrow>
   length (fst (traverseInheritanceTree this girClass depth recursive)) \<le> 1"
  by (subst traverseInheritanceTree.simps)
     (simp add: Let_def split: sum.splits option.splits)

lemma traverseInheritanceTree_descends_once:
  "\<exists>p r. length (fst (traverseInheritanceTree this girClass depth recursive))
            \<le> Suc (length (fst (traverseInheritanceTree this p (Suc depth) r)))"
proof (cases "\<exists>d. getClassDetails this girClass = Inr (Some d) \<and> attr girClass ''name'' \<noteq> None
          \<and> \<not> MAXIMUM_RECUSION_DEPTH \<le> depth \<and> traverse_parentPtr this d \<noteq> None
          \<and> recursive \<and> traverse_circular (traverse_parentPtr this d) girClass = None")
  case True
  then obtain d where d: "getClassDetails this girClass = Inr (Some d)"
    "attr girClass ''name'' \<noteq> None" "\<not> MAXIMUM_RECUSION_DEPTH \<le> depth"
    "traverse_parentPtr this d \<noteq> None" "recursive"
    "traverse_circular (traverse_parentPtr this d) girClass = None"
    by blast
  have "length (fst (traverseInheritanceTree this girClass depth recursive))
          = Suc (length (fst (traverseInheritanceTree this (the (traverse_parentPtr this d))
                                (Suc depth) True)))"
    using d by (subst traverseInheritanceTree.simps) (simp add: Let_def split: prod.splits)
  then show ?thesis by (metis le_refl)
next
  case False
  then have "length (fst (traverseInheritanceTree this girClass depth recursive)) \<le> 1"
    by (subst traverseInheritanceTree.simps)
       (auto simp: Let_def split: sum.splits option.splits)
  then show ?thesis by (metis le_SucI le_trans One_nat_def Suc_le_mono le0)
qed

lemma traverseInheritanceTree_length:
  "length (fst (traverseInheritanceTree this girClass depth recursive))
     \<le> Suc (MAXIMUM_RECUSION_DEPTH - depth)"
proof (induction "MAXIMUM_RECUSION_DEPTH - depth" arbitrary: girClass depth recursive)
  case 0
  then have "MAXIMUM_RECUSION_DEPTH \<le> depth" by simp
  from traverseInheritanceTree_bound_reached [OF this] show ?case
    by (metis le_SucI le_trans One_nat_def Suc_le_mono le0)
next
  case (Suc n)
  obtain p r where
    "length (fst (traverseInheritanceTree this girClass depth recursive))
       \<le> Suc (length (fst (traverseInheritanceTree this p (Suc depth) r)))"
    using traverseInheritanceTree_descends_once by blast
  moreover have "length (fst (traverseInheritanceTree this p (Suc depth) r))
       \<le> Suc (MAXIMUM_RECUSION_DEPTH - Suc depth)"
    using Suc.hyps(1) [of "Suc depth" p r] Suc.hyps(2) by simp
  ultimately show ?case using Suc.hyps(2) by simp
qed

lemma traverseInheritanceTree_at_bound:
  assumes "MAXIMUM_RECUSION_DEPTH \<le> depth"
    and "getClassDetails this girClass = Inr (Some d)"
    and "attr girClass ''name'' = Some n"
  shows "fst (traverseInheritanceTree this girClass depth recursive) = [girClass]
       \<and> last (fst (snd (traverseInheritanceTree this girClass depth recursive)))
           = ''Maximum recursion depth of 100 reached for \"'' @ n @ ''\"''
       \<and> snd (snd (traverseInheritanceTree this girClass depth recursive)) = None"
  using assms
  by (subst (1 2 3) traverseInheritanceTree.simps) (simp add: Let_def js_str_def)

text \<open>
  Claim C6: started at depth 0 the walk calls the callback at most 101 times; from any
  depth \<open>d\<close> it calls it at most \<open>101 - d\<close> times, so it never goes past depth 100;
  at depth 100 it calls the callback for the class it stands at, logs the warning and
  returns without descending.  The walk is a total function (its termination is proved
  with the measure \<open>100 - depth\<close>), cyclic parent graphs included.
\<close>

theorem C6_walk_bounded:
  "(\<exists>visited log e. traverseInheritanceTree this girClass 0 recursive = (visited, log, e)
       \<and> length visited \<le> 101)
   \<and> length (fst (traverseInheritanceTree this girClass depth recursive))
       \<le> Suc (MAXIMUM_RECUSION_DEPTH - depth)
   \<and> (MAXIMUM_RECUSION_DEPTH \<le> depth \<and> getClassDetails this girClass = Inr (Some d)
        \<and> attr girClass ''name'' = Some n \<longrightarrow>
        fst (traverseInheritanceTree this girClass depth recursive) = [girClass]
        \<and> last (fst (snd (traverseInheritanceTree this girClass depth recursive)))
            = ''Maximum recursion depth of 100 reached for \"'' @ n @ ''\"''
        \<and> snd (snd (traverseInheritanceTree this girClass depth recursive)) = None)"
proof -
  have "length (fst (traverseInheritanceTree this girClass 0 recursive)) \<le> 101"
    using traverseInheritanceTree_length [of this girClass 0 recursive]
    by (simp add: MAXIMUM_RECUSION_DEPTH_def)
  then have "\<exists>visited log e. traverseInheritanceTree this girClass 0 recursive = (visited, log, e)
       \<and> length visited \<le> 101"
    by (cases "traverseInheritanceTree this girClass 0 recursive") simp
  then show ?thesis
    using traverseInheritanceTree_length traverseInheritanceTree_at_bound by blast
qed

theorem C6_walk_bounded_witness:
  "length (fst (traverseInheritanceTree threeCycle (classNode ''M'' ''A'' ''B'') 0 True)) = 101
   \<and> MAXIMUM_RECUSION_DEPTH \<le> 100
   \<and> getClassDetails threeCycle (classNode ''M'' ''B'' ''C'')
       = Inr (Some \<lparr> cd_name = ''B'', qualifiedName = ''M.B'', parentName = Some ''C'',
                     qualifiedParentName = Some ''M.C'', localParentName = Some ''C'' \<rparr>)
   \<and> attr (classNode ''M'' ''B'' ''C'') ''name'' = Some ''B''
   \<and> fst (traverseInheritanceTree threeCycle (classNode ''M'' ''B'' ''C'') 100 True)
       = [classNode ''M'' ''B'' ''C'']
   \<and> last (fst (snd (traverseInheritanceTree threeCycle (classNode ''M'' ''B'' ''C'') 100 True)))
       = ''Maximum recursion depth of 100 reached for \"B\"''"
proof -
  have l: "length (fst (traverseInheritanceTree threeCycle (classNode ''M'' ''A'' ''B'') 0 True)) = 101"
    by code_simp
  have m: "MAXIMUM_RECUSION_DEPTH \<le> 100"
    by (simp add: MAXIMUM_RECUSION_DEPTH_def)
  have g: "getClassDetails threeCycle (classNode ''M'' ''B'' ''C'')
       = Inr (Some \<lparr> cd_name = ''B'', qualifiedName = ''M.B'', parentName = Some ''C'',
                     qualifiedParentName = Some ''M.C'', localParentName = Some ''C'' \<rparr>)"
    by (simp add: getClassDetails_def threeCycle_def moduleOf_def classNode_def kids_def
          plainTransformation_def js_str_def truthy_def Let_def)
  have a: "attr (classNode ''M'' ''B'' ''C'') ''name'' = Some ''B''"
    by (simp add: attr_def classNode_def)
  show ?thesis
    using l m g a
      C6_walk_bounded [of threeCycle "classNode ''M'' ''B'' ''C''" True 100
         "\<lparr> cd_name = ''B'', qualifiedName = ''M.B'', parentName = Some ''C'',
            qualifiedParentName = Some ''M.C'', localParentName = Some ''C'' \<rparr>" "''B''"]
    by simp
qed

text \<open>
  Claim C5, as stated: when the next parent in the walk is the class the walk started
  from, the walk logs the circular-dependency warning and stops.  It fails on the code:
  line 687 compares the parent's parent with the class the walk stands at, so a cycle
  of three classes is never noticed.  Started at A, the walk calls the callback for
  A, B, C and again for A (the fourth call), 101 times in all, and the only
  warning is the one of the depth bound.
\<close>

theorem C5_counterexample:
  "fst (snd (traverseInheritanceTree threeCycle (classNode ''M'' ''A'' ''B'') 0 True))
     = [''Maximum recursion depth of 100 reached for \"B\"'']
   \<and> length (fst (traverseInheritanceTree threeCycle (classNode ''M'' ''A'' ''B'') 0 True)) = 101
   \<and> take 4 (fst (traverseInheritanceTree threeCycle (classNode ''M'' ''A'' ''B'') 0 True))
     = [classNode ''M'' ''A'' ''B'', classNode ''M'' ''B'' ''C'', classNode ''M'' ''C'' ''A'',
        classNode ''M'' ''A'' ''B'']"
  by code_simp

text \<open>
  Claim C5, amended: the check looks one parent ahead.  When the walk stands at a class
  whose parent resolves to a node \<open>p\<close> and the parent attribute of \<open>p\<close>, qualified with
  the module of \<open>p\<close>, is the fully-qualified name of the class the walk stands at (the
  check of lines 683-687, \<open>traverse_circular\<close>), the walk logs
  \<^verbatim>\<open>Circular dependency found! Ignore next parent "<name>".\<close>, calls the callback
  for the class itself and goes to no parent: the callback is called for this class
  only.  (At depth 100 or more the warning of the depth bound follows.)
\<close>

theorem C5_two_class_cycle_stops:
  assumes "getClassDetails this girClass = Inr (Some d)"
    and "attr girClass ''name'' = Some n"
    and "traverse_circular (traverse_parentPtr this d) girClass = Some q"
  shows "traverseInheritanceTree this girClass depth recursive =
           ([girClass],
            [''Circular dependency found! Ignore next parent \"'' @ q @ ''\".'']
              @ (if MAXIMUM_RECUSION_DEPTH \<le> depth
                 then [''Maximum recursion depth of 100 reached for \"'' @ n @ ''\"'']
                 else []),
            None)"
  using assms
  by (subst traverseInheritanceTree.simps) (simp add: Let_def js_str_def)

theorem C5_two_class_cycle_stops_witness:
  "getClassDetails twoCycle (classNode ''M'' ''A'' ''B'')
       = Inr (Some \<lparr> cd_name = ''A'', qualifiedName = ''M.A'', parentName = Some ''B'',
                     qualifiedParentName = Some ''M.B'', localParentName = Some ''B'' \<rparr>)
   \<and> attr (classNode ''M'' ''A'' ''B'') ''name'' = Some ''A''
   \<and> traverse_circular
        (traverse_parentPtr twoCycle
           \<lparr> cd_name = ''A'', qualifiedName = ''M.A'', parentName = Some ''B'',
             qualifiedParentName = Some ''M.B'', localParentName = Some ''B'' \<rparr>)
        (classNode ''M'' ''A'' ''B'') = Some ''M.A''
   \<and> traverseInheritanceTree twoCycle (classNode ''M'' ''A'' ''B'') 0 True =
       ([classNode ''M'' ''A'' ''B''],
        [''Circular dependency found! Ignore next parent \"M.A\".''], None)"
proof -
  have g: "getClassDetails twoCycle (classNode ''M'' ''A'' ''B'')
       = Inr (Some \<lparr> cd_name = ''A'', qualifiedName = ''M.A'', parentName = Some ''B'',
                     qualifiedParentName = Some ''M.B'', localParentName = Some ''B'' \<rparr>)"
    by (simp add: getClassDetails_def twoCycle_def moduleOf_def classNode_def kids_def
          plainTransformation_def js_str_def truthy_def Let_def)
  have a: "attr (classNode ''M'' ''A'' ''B'') ''name'' = Some ''A''"
    by (simp add: attr_def classNode_def)
  have c: "traverse_circular
        (traverse_parentPtr twoCycle
           \<lparr> cd_name = ''A'', qualifiedName = ''M.A'', parentName = Some ''B'',
             qualifiedParentName = Some ''M.B'', localParentName = Some ''B'' \<rparr>)
        (classNode ''M'' ''A'' ''B'') = Some ''M.A''"
    by (simp add: traverse_circular_def traverse_parentPtr_def twoCycle_def moduleOf_def
          classNode_def attr_def truthy_def Let_def)
  show ?thesis
    using g a c C5_two_class_cycle_stops [OF g a c, of 0 True]
    by (simp add: MAXIMUM_RECUSION_DEPTH_def)
qed

section \<open>Results with warnings\<close>

text \<open>
  A method that logs and may raise returns either the exception or its value together
  with the warnings it logged through \<^verbatim>\<open>this.log.warn\<close>.
\<close>

type_synonym 'a result = "error + 'a \<times> string list"

definition ret :: "'a \<Rightarrow> 'a result" where
  "ret x = Inr (x, [])"

definition bindR :: "'a result \<Rightarrow> ('a \<Rightarrow> 'b result) \<Rightarrow> 'b result" where
  "bindR m f =
     (case m of
        Inl e \<Rightarrow> Inl e
      | Inr (x, w) \<Rightarrow> (case f x of Inl e \<Rightarrow> Inl e | Inr (y, w') \<Rightarrow> Inr (y, w @ w')))"

lemma bindR_cong [fundef_cong]:
  "m = m' \<Longrightarrow> (\<And>x w. m' = Inr (x, w) \<Longrightarrow> f x = f' x) \<Longrightarrow> bindR m f = bindR m' f'"
  by (auto simp: bindR_def split: sum.splits)

section \<open>Sizes of nodes\<close>

lemma size_list_member: "x \<in> set xs \<Longrightarrow> f x < size_list f xs"
  by (induction xs) auto

lemma size_children_member:
  "map_of c t = Some xs \<Longrightarrow> size_list size xs \<le> size_list (size_prod (\<lambda>_. 0) (size_list size)) c"
proof (induction c)
  case Nil
  then show ?case by simp
next
  case (Cons p c)
  then show ?case by (cases p) (auto split: if_splits)
qed

lemma size_kids: "kids n t = Some xs \<Longrightarrow> size_list size xs < size n"
  by (cases n) (auto simp: kids_def dest: size_children_member)

lemma size_kid: "kids n t = Some xs \<Longrightarrow> x \<in> set xs \<Longrightarrow> size x < size n"
  using size_kids [of n t xs] size_list_member [of x xs size] by simp

section \<open>Type resolution (gir-module.ts, lines 263-369, 440-443)\<close>

definition paramIsNullable :: "GirNode \<Rightarrow> bool" where
  "paramIsNullable param =
     (attrs param \<noteq> None \<and>
      (girBool (attr param ''nullable'') False \<or> girBool (attr param ''allow-none'') False
       \<or> girBool (attr param ''optional'') False))"

text \<open>\<^verbatim>\<open>/^GLib.S?List$/.test(name)\<close>: the dot matches any character but a line
  terminator.\<close>

definition isGList :: "string \<Rightarrow> bool" where
  "isGList s =
     (take 4 s = ''GLib'' \<and> length s > 4 \<and> \<not> isLineTerminator (s ! 4)
      \<and> (drop 5 s = ''List'' \<or> drop 5 s = ''SList''))"

text \<open>
  Lines 269-290.  The result is \<open>None\<close> where the code returns \<^verbatim>\<open>'any'\<close> at once,
  and otherwise the type node (which may be \<^verbatim>\<open>undefined\<close> or \<^verbatim>\<open>null\<close>), the
  array's C type and the array suffix.  \<^verbatim>\<open>girVar.type[0].$\<close> raises on an empty
  \<^verbatim>\<open>type\<close> array.
\<close>

definition typeLookup_collection :: "GirNode \<Rightarrow> error + GirNode list option" where
  "typeLookup_collection girVar =
     (case kids girVar ''array'' of
        Some a \<Rightarrow> Inr (Some a)
      | None \<Rightarrow>
          (case kids girVar ''type'' of
             None \<Rightarrow> Inr None
           | Some [] \<Rightarrow> Inl TypeError
           | Some (t # ts) \<Rightarrow>
               Inr (if isGList (js_str (attr t ''name'')) then Some (t # ts) else None)))"

definition typeLookup_shape ::
    "GirNode \<Rightarrow> error + (GirNode option \<times> string option \<times> string) option" where
  "typeLookup_shape girVar =
     (case typeLookup_collection girVar of
        Inl e \<Rightarrow> Inl e
      | Inr (Some (c0 # cs)) \<Rightarrow>
          (case kids c0 ''type'' of
             None \<Rightarrow> Inr None
           | Some [] \<Rightarrow> Inr None
           | Some (t # ts) \<Rightarrow> Inr (Some (Some t, attr c0 ''c:type'', ''[]'')))
      | Inr _ \<Rightarrow>
          (case kids girVar ''type'' of
             Some ts \<Rightarrow> Inr (Some (case ts of [] \<Rightarrow> None | t # _ \<Rightarrow> Some t, None, ''''))
           | None \<Rightarrow>
               (case kids girVar ''callback'' of
                  Some (cb # cbs) \<Rightarrow> Inr (Some (None, None, ''''))
                | _ \<Rightarrow> Inr None)))"

text \<open>Lines 345-355 and 358: the lookup of the qualified name in the symbol table.\<close>

definition typeLookup_symbol ::
    "GirModule \<Rightarrow> GirNode \<Rightarrow> string option \<Rightarrow> string \<Rightarrow> string \<Rightarrow> string result" where
  "typeLookup_symbol this girVar fullTypeName arr suffix =
     (if \<not> truthy fullTypeName \<or> symTable this (the fullTypeName) = None then
        (case attrs girVar of
           None \<Rightarrow> Inl TypeError
         | Some a \<Rightarrow>
             Inr (''any'' @ arr,
                  [''Could not find type '' @ [CHR 0x27] @ js_str fullTypeName @ [CHR 0x27]
                     @ '' for '' @ [CHR 0x27] @ js_str (map_of a ''name'') @ [CHR 0x27]]))
      else if take (length (modName this) + 1) (the fullTypeName) = modName this @ ''.''
      then ret (drop (length (modName this) + 1) (the fullTypeName) @ suffix)
      else ret (the fullTypeName @ suffix))"

text \<open>Lines 306-343, for a variable that carries no callback.\<close>

definition typeLookup_named ::
    "GirModule \<Rightarrow> GirNode \<Rightarrow> bool \<Rightarrow> GirNode option \<Rightarrow> string option \<Rightarrow> string \<Rightarrow> string
       \<Rightarrow> string result" where
  "typeLookup_named this girVar out type arrCType arr nul =
     (let T = transformation this; suffix = arr @ nul in
      case (case type of None \<Rightarrow> None | Some t \<Rightarrow> attrs t) of
        None \<Rightarrow> ret ''any''
      | Some ta \<Rightarrow>
          (let tname = map_of ta ''name'' in
           if arr \<noteq> [] \<and> truthy (POD_TYPE_MAP_ARRAY T (environment this) (js_str tname))
           then ret (the (POD_TYPE_MAP_ARRAY T (environment this) (js_str tname)) @ nul)
           else if truthy (POD_TYPE_MAP T (js_str tname))
           then ret (the (POD_TYPE_MAP T (js_str tname)) @ suffix)
           else if modName this = [] then ret ''any''
           else
             (let cType0 = map_of ta ''c:type'';
                  cType = (if \<not> truthy cType0 \<and> truthy arrCType then arrCType else cType0)
              in if truthy cType \<and> truthy (C_TYPE_MAP T (packageName this) suffix (the cType))
                 then ret (the (C_TYPE_MAP T (packageName this) suffix (the cType)))
                 else
                   (case tname of
                      None \<Rightarrow> typeLookup_symbol this girVar None arr suffix
                    | Some n \<Rightarrow>
                        if truthy (FULL_TYPE_MAP T (environment this) out n)
                        then ret (the (FULL_TYPE_MAP T (environment this) out n))
                        else if CHR ''.'' \<notin> set n then
                          typeLookup_symbol this girVar
                            (Some ((case node_module girVar of Some m \<Rightarrow> m
                                    | None \<Rightarrow> modName this) @ ''.'' @ n))
                            arr suffix
                        else typeLookup_symbol this girVar (Some n) arr suffix))))"

text \<open>Lines 366-368: every dot-separated piece goes through \<^verbatim>\<open>transformTypeName\<close>.\<close>

definition transformTypeNames :: "Transformation \<Rightarrow> string \<Rightarrow> string" where
  "transformTypeNames T s = join ''.'' (map (transformTypeName T) (split CHR ''.'' s))"

section \<open>Callable signatures (gir-module.ts, lines 379-507, 566-624)\<close>

text \<open>
  Index lookups of lines 393-416.  The result is the index as \<^verbatim>\<open>parseInt\<close> gives
  it (\<open>None\<close> for \<^verbatim>\<open>NaN\<close>); \<open>Some (-1)\<close> is the code's "no index".
\<close>

definition arrayLengthIndexLookup :: "GirNode \<Rightarrow> error + int option" where
  "arrayLengthIndexLookup param =
     (case kids param ''array'' of
        None \<Rightarrow> Inr (Some (- 1))
      | Some [] \<Rightarrow> Inl TypeError
      | Some (arr # _) \<Rightarrow>
          (case attrs arr of
             None \<Rightarrow> Inr (Some (- 1))
           | Some a \<Rightarrow>
               if truthy (map_of a ''length'') then Inr (parseInt (the (map_of a ''length'')))
               else Inr (Some (- 1))))"

definition closureDataIndexLookup :: "GirNode \<Rightarrow> error + int option" where
  "closureDataIndexLookup param =
     (case attrs param of
        None \<Rightarrow> Inl TypeError
      | Some a \<Rightarrow>
          if \<not> truthy (map_of a ''closure'') then Inr (Some (- 1))
          else Inr (parseInt (the (map_of a ''closure''))))"

definition destroyDataIndexLookup :: "GirNode \<Rightarrow> error + int option" where
  "destroyDataIndexLookup param =
     (case attrs param of
        None \<Rightarrow> Inl TypeError
      | Some a \<Rightarrow>
          if \<not> truthy (map_of a ''destroy'') then Inr (Some (- 1))
          else Inr (parseInt (the (map_of a ''destroy''))))"

text \<open>
  Lines 418-429.  \<open>skip\<close> holds the positions of the parameters pushed onto the
  \<^verbatim>\<open>skip\<close> array: the code compares parameter objects by identity, and each object
  sits at one position.  An index that is \<^verbatim>\<open>NaN\<close> passes both comparisons and pushes
  \<^verbatim>\<open>undefined\<close>, which no parameter is equal to, so nothing is recorded for it.
\<close>

fun processParams ::
    "GirNode list \<Rightarrow> nat list \<Rightarrow> (GirNode \<Rightarrow> error + int option) \<Rightarrow> GirNode list
       \<Rightarrow> error + nat list" where
  "processParams parametersArray skip getIndex [] = Inr skip"
| "processParams parametersArray skip getIndex (param # rest) =
     (case getIndex param of
        Inl e \<Rightarrow> Inl e
      | Inr None \<Rightarrow> processParams parametersArray skip getIndex rest
      | Inr (Some index) \<Rightarrow>
          if index < 0 then processParams parametersArray skip getIndex rest
          else if index \<ge> int (length parametersArray)
          then processParams parametersArray skip getIndex rest
          else processParams parametersArray (skip @ [nat index]) getIndex rest)"

text \<open>Lines 464-468.  \<open>outArrayLengthIndex\<close> is \<open>None\<close> for the code's \<open>-1\<close>
  and for a number that is no position of the array.\<close>

definition getParameters_skip :: "nat option \<Rightarrow> GirNode list \<Rightarrow> error + nat list" where
  "getParameters_skip outArrayLengthIndex parametersArray =
     (let skip0 = (case outArrayLengthIndex of
                     Some k \<Rightarrow> if k < length parametersArray then [k] else []
                   | None \<Rightarrow> [])
      in case processParams parametersArray skip0 arrayLengthIndexLookup parametersArray of
           Inl e \<Rightarrow> Inl e
         | Inr skip1 \<Rightarrow>
             (case processParams parametersArray skip1 closureDataIndexLookup parametersArray of
                Inl e \<Rightarrow> Inl e
              | Inr skip2 \<Rightarrow>
                  processParams parametersArray skip2 destroyDataIndexLookup parametersArray))"

text \<open>Lines 486-498: the optional marker of the parameter at position \<open>index\<close>.\<close>

definition getParameters_isOptional :: "GirNode list \<Rightarrow> nat \<Rightarrow> string" where
  "getParameters_isOptional parametersArray index =
     (if paramIsNullable (parametersArray ! index) then
        (let following = filter (\<lambda>p. attr p ''direction'' \<noteq> Some ''out'')
                           (drop index parametersArray)
         in if list_ex (\<lambda>p. \<not> paramIsNullable p) following then '''' else ''?'')
      else '''')"

text \<open>Lines 452-462: the instance parameter of a class method.\<close>

definition getParameters_instance :: "GirModule \<Rightarrow> GirNode \<Rightarrow> error + string list" where
  "getParameters_instance this parameters0 =
     (case kids parameters0 ''instance-parameter'' of
        Some (ip # _) \<Rightarrow>
          (case (case kids ip ''type'' of
                   None \<Rightarrow> Inr None
                 | Some [] \<Rightarrow> Inl TypeError
                 | Some (t # _) \<Rightarrow>
                     (case attrs t of None \<Rightarrow> Inl TypeError | Some ta \<Rightarrow> Inr (map_of ta ''name''))) of
             Inl e \<Rightarrow> Inl e
           | Inr typeName \<Rightarrow>
               (case (if truthy typeName then
                        (case kids (ns this) ''record'' of
                           None \<Rightarrow> Inr None
                         | Some records \<Rightarrow>
                             (case dropWhile (\<lambda>r. attrs r \<noteq> None \<and> attr r ''name'' \<noteq> typeName)
                                     records of
                                [] \<Rightarrow> Inr None
                              | r # _ \<Rightarrow> if attrs r = None then Inl TypeError else Inr (Some r)))
                      else Inr None) of
                  Inl e \<Rightarrow> Inl e
                | Inr rec \<Rightarrow>
                    (let structFor = (case rec of None \<Rightarrow> None
                                      | Some r \<Rightarrow> attr r ''glib:is-gtype-struct-for'');
                         gobject = (if modName this = ''GObject'' \<or> modName this = ''GLib''
                                    then '''' else ''GObject.'')
                     in if truthy structFor then
                          (case attrs ip of
                             None \<Rightarrow> Inl TypeError
                           | Some ia \<Rightarrow>
                               Inr [js_str (map_of ia ''name'') @ '': '' @ the structFor
                                      @ '' | Function | '' @ gobject @ ''Type''])
                        else Inr [])))
      | _ \<Rightarrow> Inr [])"

text \<open>\<^verbatim>\<open>desc[0]\<close> printed in a template: \<^verbatim>\<open>undefined\<close> for an empty array.\<close>

definition first_or_undefined :: "string list \<Rightarrow> string" where
  "first_or_undefined xs = (case xs of [] \<Rightarrow> ''undefined'' | x # _ \<Rightarrow> x)"

type_synonym FunctionDescription = "string list \<times> string option"

text \<open>Lines 596-608: the return type of the emitted signature.\<close>

definition getFunction_retType :: "string \<Rightarrow> string list \<Rightarrow> string option \<Rightarrow> string" where
  "getFunction_retType retType outParams overrideReturnType =
     (let retTypeIsVoid = (retType = ''void'') in
      if truthy overrideReturnType then the overrideReturnType
      else if length outParams + (if retTypeIsVoid then 0 else 1) > 1 then
        (let outParams1 = (if \<not> retTypeIsVoid then (''/* returnType */ '' @ retType) # outParams
                           else outParams)
         in ''[ '' @ join '', '' outParams1 @ '' ]'')
      else if length outParams = 1 \<and> retTypeIsVoid then outParams ! 0
      else retType)"

text \<open>Line 450: \<^verbatim>\<open>parameters[0].parameter || []\<close>.\<close>

definition parametersArrayOf :: "GirNode \<Rightarrow> GirNode list" where
  "parametersArrayOf parameters0 =
     (case kids parameters0 ''parameter'' of Some ps \<Rightarrow> ps | None \<Rightarrow> [])"

text \<open>Line 576: the patch registered for the function, \<open>None\<close> when
  \<^verbatim>\<open>this.patch\<close> has no entry and the empty array for a function with no
  \<^verbatim>\<open>_fullSymName\<close>.\<close>

definition getFunction_patch :: "GirModule \<Rightarrow> GirNode \<Rightarrow> string list option" where
  "getFunction_patch this e =
     (case fullSymName e of
        Some n \<Rightarrow> if n \<noteq> [] then patch this n else Some []
      | None \<Rightarrow> Some [])"

text \<open>
  The methods that call each other through a callback type: \<open>typeLookup\<close> renders a
  callback with \<open>getFunction\<close>, which resolves the callback's own return value and
  parameters with \<open>typeLookup\<close>.  The loop of lines 470-502 is \<open>getParameters_loop\<close>; its
  state is the descriptions pushed so far, the out parameters and the warnings.
\<close>

function typeLookup :: "GirModule \<Rightarrow> GirNode \<Rightarrow> bool \<Rightarrow> string result"
  and getReturnType :: "GirModule \<Rightarrow> GirNode \<Rightarrow> (string \<times> nat option) result"
  and getParameters_loop ::
        "GirModule \<Rightarrow> GirNode list \<Rightarrow> nat list \<Rightarrow> nat \<Rightarrow> (string list \<times> string list) result"
  and getParameters ::
        "GirModule \<Rightarrow> nat option \<Rightarrow> GirNode list option \<Rightarrow> (string \<times> string list) result"
  and getFunction ::
        "GirModule \<Rightarrow> GirNode \<Rightarrow> string \<Rightarrow> string \<Rightarrow> string option \<Rightarrow> bool \<Rightarrow> bool
           \<Rightarrow> FunctionDescription result"
where
  "typeLookup this girVar out =
     (case typeLookup_shape girVar of
        Inl e \<Rightarrow> Inl e
      | Inr None \<Rightarrow> ret ''any''
      | Inr (Some (type, arrCType, arr)) \<Rightarrow>
          (let nul = (if paramIsNullable girVar then '' | null'' else '''');
               suffix = arr @ nul
           in case kids girVar ''callback'' of
                Some (cb # cbs) \<Rightarrow>
                  bindR (getFunction this cb '''' '''' None True False)
                    (\<lambda>desc.
                       let fullTypeName = first_or_undefined (fst desc) in
                       ret ((if suffix \<noteq> [] then ''('' @ fullTypeName @ '')'' else fullTypeName)
                              @ suffix))
              | _ \<Rightarrow> typeLookup_named this girVar out type arrCType arr nul))"
| "getReturnType this func =
     (case kids func ''return-value'' of
        Some (returnVal # _) \<Rightarrow>
          bindR (typeLookup this returnVal True)
            (\<lambda>t. case kids returnVal ''array'' of
                    None \<Rightarrow> ret (transformTypeNames (transformation this) t, None)
                  | Some [] \<Rightarrow> Inl TypeError
                  | Some (a # _) \<Rightarrow>
                      ret (transformTypeNames (transformation this) t,
                           if truthy (attr a ''length'')
                           then Number_index this (the (attr a ''length'')) else None))
      | _ \<Rightarrow> ret (''void'', None))"
| "getParameters_loop this parametersArray skip i =
     (if i \<ge> length parametersArray then ret ([], [])
      else if i \<in> set skip then getParameters_loop this parametersArray skip (Suc i)
      else
        (case attrs (parametersArray ! i) of
           None \<Rightarrow> Inl TypeError
         | Some a \<Rightarrow>
             (let paramName = transformParameterName (transformation this)
                                (if truthy (map_of a ''name'') then the (map_of a ''name'')
                                 else ''-'') False;
                  optDirection = map_of a ''direction'';
                  out = (optDirection = Some ''out'' \<or> optDirection = Some ''inout'')
              in bindR (typeLookup this (parametersArray ! i) out)
                   (\<lambda>t. let paramType = transformTypeNames (transformation this) t;
                             outParam = (if out then [''/* '' @ paramName @ '' */ '' @ paramType]
                                         else []);
                             paramDesc = (if optDirection = Some ''out'' then []
                                          else [paramName
                                                  @ getParameters_isOptional parametersArray i
                                                  @ '': '' @ paramType])
                         in bindR (getParameters_loop this parametersArray skip (Suc i))
                              (\<lambda>r. ret (paramDesc @ fst r, outParam @ snd r))))))"
| "getParameters this outArrayLengthIndex parameters =
     (case parameters of
        Some (parameters0 # _) \<Rightarrow>
          (let parametersArray = parametersArrayOf parameters0
           in case getParameters_instance this parameters0 of
                Inl e \<Rightarrow> Inl e
              | Inr def0 \<Rightarrow>
                  (case getParameters_skip outArrayLengthIndex parametersArray of
                     Inl e \<Rightarrow> Inl e
                   | Inr skip \<Rightarrow>
                       bindR (getParameters_loop this parametersArray skip 0)
                         (\<lambda>r. ret (join '', '' (def0 @ fst r), snd r))))
      | _ \<Rightarrow> ret ([], []))"
| "getFunction this e prefix funcNamePrefix overrideReturnType arrowType colon =
     (if attrs e = None \<or> \<not> girBool (attr e ''introspectable'') True
         \<or> truthy (attr e ''shadowed-by'')
      then ret ([], None)
      else
        (let patch = getFunction_patch this e
         in bindR (getReturnType this e)
              (\<lambda>rt. bindR (getParameters this (snd rt) (kids e ''parameters''))
                 (\<lambda>ps.
                    let name0 = (if truthy (attr e ''shadows'') then attr e ''shadows''
                                 else attr e ''name'');
                        name1 = (if funcNamePrefix \<noteq> [] then Some (funcNamePrefix @ js_str name0)
                                 else name0)
                    in if patch \<noteq> None \<and> length (the patch) = 1 then ret (the patch, None)
                       else
                         (let name2 = transformFunctionName (transformation this) name1 in
                          if patch \<noteq> None \<and> length (the patch) = 2
                          then ret ([prefix @ funcNamePrefix @ last (the patch)], Some name2)
                          else
                            (let retType = getFunction_retType (fst rt) (snd ps) overrideReturnType;
                                 retSep = (if arrowType then '' =>'' else '':'');
                                 prefix1 = (if arrowType \<and> \<not> colon then '''' else prefix);
                                 name3 = (if arrowType \<and> \<not> colon then '''' else name2);
                                 name4 = (if colon then name3 @ '': '' else name3)
                             in ret ([prefix1 @ name4 @ ''('' @ fst ps @ '')'' @ retSep
                                        @ '' '' @ retType],
                                     Some name4)))))))"
  by pat_completeness auto

text \<open>
  Termination: every call goes to a node below the current one (a callback of the
  variable, the return value or a parameter of the function), and the loop counts up
  to the length of the array.
\<close>

definition callable_measure ::
    "((GirModule \<times> GirNode \<times> bool) + (GirModule \<times> GirNode))
       + ((GirModule \<times> GirNode list \<times> nat list \<times> nat)
          + ((GirModule \<times> nat option \<times> GirNode list option)
             + (GirModule \<times> GirNode \<times> string \<times> string \<times> string option \<times> bool \<times> bool)))
     \<Rightarrow> nat \<times> nat" where
  "callable_measure x =
     (case x of
        Inl (Inl (this, girVar, out)) \<Rightarrow> (2 * size girVar, 0)
      | Inl (Inr (this, func)) \<Rightarrow> (2 * size func, 0)
      | Inr (Inl (this, parametersArray, skip, i)) \<Rightarrow>
          (2 * size_list size parametersArray + 1, length parametersArray - i)
      | Inr (Inr (Inl (this, outArrayLengthIndex, parameters))) \<Rightarrow>
          (2 * (case parameters of None \<Rightarrow> 0 | Some ps \<Rightarrow> size_list size ps) + 1, 0)
      | Inr (Inr (Inr (this, e, rest))) \<Rightarrow> (2 * size e + 1, 0))"

lemma size_GirNode_pos: "0 < size (n :: GirNode)"
  by (cases n) simp

lemma size_nth: "i < length xs \<Longrightarrow> size (xs ! i) < size_list size xs"
  by (simp add: size_list_member)

termination typeLookup
  apply (relation "inv_image (less_than <*lex*> less_than) callable_measure")
  subgoal by (intro wf_inv_image wf_lex_prod wf_less_than)
  subgoal by (auto simp: callable_measure_def dest!: size_kids)
  subgoal by (auto simp: callable_measure_def dest!: size_kids)
  subgoal by (auto simp: callable_measure_def)
  subgoal for this parametersArray skip i
    using size_nth [of i parametersArray] by (auto simp: callable_measure_def)
  subgoal by (auto simp: callable_measure_def)
  subgoal by (auto simp: callable_measure_def parametersArrayOf_def dest!: size_kids
                split: option.splits)
  subgoal by (auto simp: callable_measure_def)
  subgoal for this e
    using size_GirNode_pos [of e]
    by (auto simp: callable_measure_def dest!: size_kids split: option.splits)
  done

declare typeLookup.simps [simp del] getReturnType.simps [simp del]
  getParameters_loop.simps [simp del] getParameters.simps [simp del] getFunction.simps [simp del]

definition typeLookupTransformed :: "GirModule \<Rightarrow> GirNode \<Rightarrow> bool \<Rightarrow> string result" where
  "typeLookupTransformed this girVar out =
     bindR (typeLookup this girVar out) (\<lambda>t. ret (transformTypeNames (transformation this) t))"

definition typeNode :: "string \<Rightarrow> GirNode" where
  "typeNode n = GirNode (Some [(''name'', n)]) [] None None"

definition paramNode :: "(string \<times> string) list \<Rightarrow> string \<Rightarrow> GirNode" where
  "paramNode a t = GirNode (Some a) [(''type'', [typeNode t])] None None"

definition functionNode :: "string \<Rightarrow> GirNode list \<Rightarrow> string \<Rightarrow> GirNode" where
  "functionNode n ps r =
     GirNode (Some [(''name'', n)])
       [(''return-value'', [paramNode [(''transfer-ownership'', ''none'')] r]),
        (''parameters'', [GirNode None [(''parameter'', ps)] None None])]
       None None"

definition gjsModule :: "(string \<times> GirNode) list \<Rightarrow> GirModule" where
  "gjsModule table =
     (moduleOf table)
       \<lparr> transformation := plainTransformation
            \<lparr> POD_TYPE_MAP := map_of [(''gint'', ''number''), (''none'', ''void''),
                                        (''utf8'', ''string''), (''gboolean'', ''boolean'')] \<rparr> \<rparr>"

subsection \<open>Properties of the parameter list\<close>

text \<open>What the loop pushes for the parameter at position \<open>i\<close>: its transformed name,
  its resolved type, the entry of the parameter list and the entry of the out
  parameters.\<close>

definition isOutOrInout :: "GirNode \<Rightarrow> bool" where
  "isOutOrInout p =
     (attr p ''direction'' = Some ''out'' \<or> attr p ''direction'' = Some ''inout'')"

definition paramNameOf :: "GirModule \<Rightarrow> GirNode \<Rightarrow> string" where
  "paramNameOf this p =
     transformParameterName (transformation this)
       (if truthy (attr p ''name'') then the (attr p ''name'') else ''-'') False"

definition paramTypeOf :: "GirModule \<Rightarrow> GirNode \<Rightarrow> string" where
  "paramTypeOf this p =
     (case typeLookupTransformed this p (isOutOrInout p) of
        Inr (t, w) \<Rightarrow> t
      | Inl e \<Rightarrow> [])"

definition paramDescOf :: "GirModule \<Rightarrow> GirNode list \<Rightarrow> nat \<Rightarrow> string" where
  "paramDescOf this ps i =
     paramNameOf this (ps ! i) @ getParameters_isOptional ps i @ '': ''
       @ paramTypeOf this (ps ! i)"

definition outParamDescOf :: "GirModule \<Rightarrow> GirNode list \<Rightarrow> nat \<Rightarrow> string" where
  "outParamDescOf this ps i =
     ''/* '' @ paramNameOf this (ps ! i) @ '' */ '' @ paramTypeOf this (ps ! i)"

text \<open>The positions the loop emits into the parameter list, and those it collects as
  out parameters.\<close>

definition emittedPositions :: "GirNode list \<Rightarrow> nat list \<Rightarrow> nat \<Rightarrow> nat list" where
  "emittedPositions ps skip k =
     filter (\<lambda>i. i \<notin> set skip \<and> attr (ps ! i) ''direction'' \<noteq> Some ''out'') [k..<length ps]"

definition outPositions :: "GirNode list \<Rightarrow> nat list \<Rightarrow> nat \<Rightarrow> nat list" where
  "outPositions ps skip k =
     filter (\<lambda>i. i \<notin> set skip \<and> isOutOrInout (ps ! i)) [k..<length ps]"

lemma positions_step:
  "k < length ps \<Longrightarrow>
   emittedPositions ps skip k =
     (if k \<notin> set skip \<and> attr (ps ! k) ''direction'' \<noteq> Some ''out'' then [k] else [])
       @ emittedPositions ps skip (Suc k)"
  "k < length ps \<Longrightarrow>
   outPositions ps skip k =
     (if k \<notin> set skip \<and> isOutOrInout (ps ! k) then [k] else [])
       @ outPositions ps skip (Suc k)"
  by (simp_all add: emittedPositions_def outPositions_def upt_conv_Cons)

lemma positions_end:
  "length ps \<le> k \<Longrightarrow> emittedPositions ps skip k = []"
  "length ps \<le> k \<Longrightarrow> outPositions ps skip k = []"
  by (simp_all add: emittedPositions_def outPositions_def)

lemma getParameters_loop_result:
  "getParameters_loop this ps skip k = Inr ((defs, outs), w) \<Longrightarrow>
   defs = map (paramDescOf this ps) (emittedPositions ps skip k)
   \<and> outs = map (outParamDescOf this ps) (outPositions ps skip k)"
proof (induction "length ps - k" arbitrary: k defs outs w)
  case 0
  then have "length ps \<le> k" by simp
  with 0 show ?case
    by (simp add: getParameters_loop.simps ret_def positions_end)
next
  case (Suc n)
  then have k: "k < length ps" and n: "n = length ps - Suc k" by simp_all
  show ?case
  proof (cases "k \<in> set skip")
    case True
    with Suc.prems k have "getParameters_loop this ps skip (Suc k) = Inr ((defs, outs), w)"
      by (simp add: getParameters_loop.simps)
    from Suc.hyps(1) [OF n this] True k show ?thesis
      by (simp add: positions_step)
  next
    case False
    from Suc.prems k False obtain a where a: "attrs (ps ! k) = Some a"
      by (auto simp: getParameters_loop.simps split: option.splits)
    have d: "map_of a ''direction'' = attr (ps ! k) ''direction''"
      and nm: "map_of a ''name'' = attr (ps ! k) ''name''"
      using a by (simp_all add: attr_def)
    from Suc.prems k False a obtain t w1 r w2 where
      t: "typeLookup this (ps ! k) (isOutOrInout (ps ! k)) = Inr (t, w1)"
      and r: "getParameters_loop this ps skip (Suc k) = Inr (r, w2)"
      and defs: "defs = (if attr (ps ! k) ''direction'' = Some ''out'' then []
                         else [paramNameOf this (ps ! k) @ getParameters_isOptional ps k
                                 @ '': '' @ transformTypeNames (transformation this) t]) @ fst r"
      and outs: "outs = (if isOutOrInout (ps ! k)
                         then [''/* '' @ paramNameOf this (ps ! k) @ '' */ ''
                                 @ transformTypeNames (transformation this) t] else []) @ snd r"
      by (auto simp: getParameters_loop.simps [of this ps skip k] Let_def bindR_def ret_def d nm
            isOutOrInout_def paramNameOf_def split: sum.splits prod.splits)
    have ty: "paramTypeOf this (ps ! k) = transformTypeNames (transformation this) t"
      by (simp add: paramTypeOf_def typeLookupTransformed_def t bindR_def ret_def)
    from Suc.hyps(1) [OF n, of "fst r" "snd r" w2] r
    have "fst r = map (paramDescOf this ps) (emittedPositions ps skip (Suc k))"
      and "snd r = map (outParamDescOf this ps) (outPositions ps skip (Suc k))"
      by simp_all
    with defs outs ty False k show ?thesis
      by (simp add: positions_step paramDescOf_def outParamDescOf_def)
  qed
qed

lemma getParameters_isOptional_iff:
  assumes "i < length ps"
  shows "getParameters_isOptional ps i =
           (if paramIsNullable (ps ! i)
               \<and> (\<forall>j. i < j \<and> j < length ps \<longrightarrow>
                      \<not> (\<not> paramIsNullable (ps ! j) \<and> attr (ps ! j) ''direction'' \<noteq> Some ''out''))
            then ''?'' else [])"
proof -
  have s: "set (drop i ps) = {ps ! j | j. i \<le> j \<and> j < length ps}"
  proof -
    have "set (drop i ps) = {drop i ps ! k | k. k < length (drop i ps)}"
      by (simp add: set_conv_nth)
    also have "\<dots> = {ps ! j | j. i \<le> j \<and> j < length ps}"
    proof (intro set_eqI iffI; clarsimp)
      fix k assume "k < length ps - i"
      then show "\<exists>j. ps ! (i + k) = ps ! j \<and> i \<le> j \<and> j < length ps"
        by (intro exI [of _ "i + k"]) auto
    next
      fix j assume "i \<le> j" "j < length ps"
      then show "\<exists>k. ps ! j = ps ! (i + k) \<and> k < length ps - i"
        by (intro exI [of _ "j - i"]) auto
    qed
    finally show ?thesis .
  qed
  have "list_ex (\<lambda>p. \<not> paramIsNullable p)
          (filter (\<lambda>p. attr p ''direction'' \<noteq> Some ''out'') (drop i ps))
        \<longleftrightarrow> (\<exists>j. i \<le> j \<and> j < length ps \<and> \<not> paramIsNullable (ps ! j)
                   \<and> attr (ps ! j) ''direction'' \<noteq> Some ''out'')"
    unfolding list_ex_iff set_filter s by auto
  moreover have "paramIsNullable (ps ! i) \<Longrightarrow>
      (\<exists>j. i \<le> j \<and> j < length ps \<and> \<not> paramIsNullable (ps ! j)
                   \<and> attr (ps ! j) ''direction'' \<noteq> Some ''out'')
      \<longleftrightarrow> (\<exists>j. i < j \<and> j < length ps \<and> \<not> paramIsNullable (ps ! j)
                   \<and> attr (ps ! j) ''direction'' \<noteq> Some ''out'')"
    by (metis le_neq_implies_less less_imp_le)
  ultimately show ?thesis
    by (auto simp: getParameters_isOptional_def Let_def)
qed

lemma getParameters_some:
  assumes "getParameters this oali (Some (p0 # others)) = Inr ((s, outs), w)"
  shows "\<exists>def0 skip.
           getParameters_instance this p0 = Inr def0
         \<and> getParameters_skip oali (parametersArrayOf p0) = Inr skip
         \<and> s = join '', '' (def0 @ map (paramDescOf this (parametersArrayOf p0))
                                     (emittedPositions (parametersArrayOf p0) skip 0))
         \<and> outs = map (outParamDescOf this (parametersArrayOf p0))
                     (outPositions (parametersArrayOf p0) skip 0)"
proof -
  from assms obtain def0 skip r w' where
    i: "getParameters_instance this p0 = Inr def0"
    and k: "getParameters_skip oali (parametersArrayOf p0) = Inr skip"
    and l: "getParameters_loop this (parametersArrayOf p0) skip 0 = Inr (r, w')"
    and s: "s = join '', '' (def0 @ fst r)" and o: "outs = snd r"
    by (auto simp: getParameters.simps Let_def bindR_def ret_def split: sum.splits prod.splits)
  from getParameters_loop_result [of this "parametersArrayOf p0" skip 0 "fst r" "snd r" w'] l
  show ?thesis using i k s o by simp
qed

text \<open>A callback parameter whose \<^verbatim>\<open>closure\<close> attribute points at the nullable
  user-data parameter behind it, and a parameter list that ends with a nullable
  parameter of direction \<^verbatim>\<open>out\<close>.\<close>

definition closureData :: GirNode where
  "closureData = GirNode None
     [(''parameter'', [paramNode [(''name'', ''cb''), (''closure'', ''1'')] ''gint'',
                       paramNode [(''name'', ''data''), (''nullable'', ''1'')] ''gint''])] None None"

definition nullableOut :: GirNode where
  "nullableOut = GirNode None
     [(''parameter'', [paramNode [(''name'', ''a'')] ''gint'',
                       paramNode [(''name'', ''b''), (''direction'', ''out''), (''nullable'', ''1'')]
                         ''gint''])] None None"

text \<open>
  Claim C3, as stated: every parameter of a signature carries the marker \<^verbatim>\<open>?\<close> if
  and only if it is nullable and no parameter after it is both non-nullable and not of
  direction \<^verbatim>\<open>out\<close>.  It fails on the code for a parameter that has no entry in the
  parameter list.  In \<^verbatim>\<open>(cb closure="1", data nullable="1")\<close> the parameter
  \<^verbatim>\<open>data\<close> is nullable and the last one, but lines 464-473 skip it as the user
  data of \<^verbatim>\<open>cb\<close>, and the list is \<^verbatim>\<open>cb: number\<close>.  In
  \<^verbatim>\<open>(a, b direction="out" nullable="1")\<close> the parameter \<^verbatim>\<open>b\<close> is nullable and
  the last one, but lines 481-483 move it to the out parameters, and the list is
  \<^verbatim>\<open>a: number\<close>.
\<close>

theorem C3_counterexample:
  "length (parametersArrayOf closureData) = 2
   \<and> paramIsNullable (parametersArrayOf closureData ! 1)
   \<and> getParameters (gjsModule []) None (Some [closureData]) = Inr ((''cb: number'', []), [])
   \<and> length (parametersArrayOf nullableOut) = 2
   \<and> paramIsNullable (parametersArrayOf nullableOut ! 1)
   \<and> getParameters (gjsModule []) None (Some [nullableOut])
       = Inr ((''a: number'', [''/* b */ number | null'']), [])"
  by code_simp

text \<open>
  Claim C3, amended: the rule holds for the parameters that have an entry in the
  parameter list.  In the list that \<open>getParameters\<close> returns, the entries are those of
  the parameters that are neither skipped (the parameter that the array length of the
  return value or of a parameter, or a \<^verbatim>\<open>closure\<close> or \<^verbatim>\<open>destroy\<close> attribute
  points at) nor of direction \<^verbatim>\<open>out\<close>, in source order, after the instance
  parameter if one is exposed; and the entry of parameter \<open>p\<close> carries the marker
  \<^verbatim>\<open>?\<close> if and only if \<open>p\<close> is nullable (nullable, allow-none or optional) and no
  parameter after \<open>p\<close> in the parameter array, skipped or not, is both non-nullable and
  not of direction \<^verbatim>\<open>out\<close>.  A skipped parameter and a parameter of direction
  \<^verbatim>\<open>out\<close> have no entry and no marker.
\<close>

theorem C3_optional_marker:
  assumes "getParameters this outArrayLengthIndex (Some (parameters0 # others)) = Inr ((s, outs), w)"
    and "ps = parametersArrayOf parameters0"
  shows "\<exists>def0 skip.
           getParameters_instance this parameters0 = Inr def0
         \<and> getParameters_skip outArrayLengthIndex ps = Inr skip
         \<and> s = join '', ''
                 (def0 @ map (\<lambda>i. paramNameOf this (ps ! i)
                                @ (if paramIsNullable (ps ! i)
                                      \<and> (\<forall>j. i < j \<and> j < length ps \<longrightarrow>
                                            \<not> (\<not> paramIsNullable (ps ! j)
                                               \<and> attr (ps ! j) ''direction'' \<noteq> Some ''out''))
                                   then ''?'' else [])
                                @ '': '' @ paramTypeOf this (ps ! i))
                            (emittedPositions ps skip 0))"
proof -
  from getParameters_some [OF assms(1)] obtain def0 skip where
    i: "getParameters_instance this parameters0 = Inr def0"
    and k: "getParameters_skip outArrayLengthIndex ps = Inr skip"
    and s: "s = join '', '' (def0 @ map (paramDescOf this ps) (emittedPositions ps skip 0))"
    unfolding assms(2) by blast
  have "map (paramDescOf this ps) (emittedPositions ps skip 0)
        = map (\<lambda>i. paramNameOf this (ps ! i)
                                @ (if paramIsNullable (ps ! i)
                                      \<and> (\<forall>j. i < j \<and> j < length ps \<longrightarrow>
                                            \<not> (\<not> paramIsNullable (ps ! j)
                                               \<and> attr (ps ! j) ''direction'' \<noteq> Some ''out''))
                                   then ''?'' else [])
                                @ '': '' @ paramTypeOf this (ps ! i))
                            (emittedPositions ps skip 0)"
    by (rule map_cong [OF refl])
       (simp add: paramDescOf_def getParameters_isOptional_iff emittedPositions_def)
  with i k s show ?thesis by auto
qed

definition nullableFirst :: GirNode where
  "nullableFirst = GirNode None
     [(''parameter'', [paramNode [(''name'', ''a''), (''nullable'', ''1'')] ''gint'',
                       paramNode [(''name'', ''b'')] ''gint''])] None None"

definition nullableLast :: GirNode where
  "nullableLast = GirNode None
     [(''parameter'', [paramNode [(''name'', ''a'')] ''gint'',
                       paramNode [(''name'', ''b''), (''nullable'', ''1'')] ''gint''])] None None"

theorem C3_optional_marker_witness:
  "getParameters (gjsModule []) None (Some [nullableFirst])
     = Inr ((''a: number | null, b: number'', []), [])
   \<and> getParameters (gjsModule []) None (Some [nullableLast])
     = Inr ((''a: number, b?: number | null'', []), [])
   \<and> (\<exists>def0 skip.
           getParameters_instance (gjsModule []) nullableLast = Inr def0
         \<and> getParameters_skip None (parametersArrayOf nullableLast) = Inr skip
         \<and> ''a: number, b?: number | null'' = join '', ''
                 (def0 @ map (\<lambda>i. paramNameOf (gjsModule []) (parametersArrayOf nullableLast ! i)
                                @ (if paramIsNullable (parametersArrayOf nullableLast ! i)
                                      \<and> (\<forall>j. i < j \<and> j < length (parametersArrayOf nullableLast) \<longrightarrow>
                                            \<not> (\<not> paramIsNullable (parametersArrayOf nullableLast ! j)
                                               \<and> attr (parametersArrayOf nullableLast ! j) ''direction''
                                                   \<noteq> Some ''out''))
                                   then ''?'' else [])
                                @ '': '' @ paramTypeOf (gjsModule []) (parametersArrayOf nullableLast ! i))
                            (emittedPositions (parametersArrayOf nullableLast) skip 0)))"
proof -
  have e1: "getParameters (gjsModule []) None (Some [nullableFirst])
     = Inr ((''a: number | null, b: number'', []), [])"
    by code_simp
  have e2: "getParameters (gjsModule []) None (Some [nullableLast])
     = Inr ((''a: number, b?: number | null'', []), [])"
    by code_simp
  show ?thesis
    using e1 e2 C3_optional_marker [OF e2 refl] by blast
qed

lemma bindR_Inr:
  "bindR m f = Inr (y, w) \<Longrightarrow> \<exists>x w1 w2. m = Inr (x, w1) \<and> f x = Inr (y, w2) \<and> w = w1 @ w2"
  by (auto simp: bindR_def split: sum.splits prod.splits)

text \<open>Two functions with an out array whose \<^verbatim>\<open>length\<close> attribute points at a
  second out parameter: \<^verbatim>\<open>get_contents(filename, out contents[], out length)\<close>
  returning \<^verbatim>\<open>gboolean\<close> and \<^verbatim>\<open>get_list(out items[], out n_items)\<close> returning
  nothing.\<close>

definition arrayParam :: "(string \<times> string) list \<Rightarrow> string \<Rightarrow> string \<Rightarrow> GirNode" where
  "arrayParam a len t =
     GirNode (Some a)
       [(''array'', [GirNode (Some [(''length'', len)]) [(''type'', [typeNode t])] None None])]
       None None"

definition get_contents_params :: "GirNode list" where
  "get_contents_params =
     [paramNode [(''name'', ''filename'')] ''utf8'',
      arrayParam [(''name'', ''contents''), (''direction'', ''out'')] ''2'' ''utf8'',
      paramNode [(''name'', ''length''), (''direction'', ''out'')] ''gint'']"

definition get_list_params :: "GirNode list" where
  "get_list_params =
     [arrayParam [(''name'', ''items''), (''direction'', ''out'')] ''1'' ''utf8'',
      paramNode [(''name'', ''n_items''), (''direction'', ''out'')] ''gint'']"

text \<open>
  Claim C4, as stated: the out parameters of the callable are counted and listed.  It
  fails on the code for an out parameter that is skipped as the length of an array
  (lines 464-473): \<^verbatim>\<open>get_contents\<close> has a non-void return and two parameters of
  direction \<^verbatim>\<open>out\<close>, and the emitted tuple holds the return type and
  \<^verbatim>\<open>contents\<close> only; \<^verbatim>\<open>get_list\<close> returns nothing and has two parameters of
  direction \<^verbatim>\<open>out\<close>, and the emitted return type is the single type of
  \<^verbatim>\<open>items\<close>, not a tuple.
\<close>

theorem C4_counterexample:
  "map (\<lambda>p. attr p ''direction'') get_contents_params = [None, Some ''out'', Some ''out'']
   \<and> getFunction (gjsModule []) (functionNode ''get_contents'' get_contents_params ''gboolean'')
         ''export function '' [] None False False
       = Inr (([''export function get_contents(filename: string): ''
                  @ ''[ /* returnType */ boolean, /* contents */ string[] ]''],
               Some ''get_contents''), [])
   \<and> map (\<lambda>p. attr p ''direction'') get_list_params = [Some ''out'', Some ''out'']
   \<and> getFunction (gjsModule []) (functionNode ''get_list'' get_list_params ''none'')
         ''export function '' [] None False False
       = Inr (([''export function get_list(): /* items */ string[]''], Some ''get_list''), [])"
  by code_simp

text \<open>
  Claim C4, amended: the out parameters that count are the collected ones.  When
  \<open>getFunction\<close> emits a signature of its own making (the function is
  introspectable and not shadowed, no patch of one or two lines is registered for it) and
  no override return type is given, the emitted return type is: the single collected out
  parameter when the resolved return type is \<^verbatim>\<open>void\<close> and exactly one out
  parameter was collected; the tuple of the non-void return type followed by the
  collected out parameters, in source order, when their number plus one for a non-void
  return exceeds one; and the resolved return type otherwise.  The collected out
  parameters are those of direction \<^verbatim>\<open>out\<close> or \<^verbatim>\<open>inout\<close> that are not skipped
  (skipped is the parameter that the array length of the return value or of a parameter,
  or a \<^verbatim>\<open>closure\<close> or \<^verbatim>\<open>destroy\<close> attribute points at), each written as its type
  behind a comment with its name.
\<close>

theorem C4_return_type:
  assumes "getFunction this e prefix funcNamePrefix overrideReturnType arrowType colon
             = Inr ((desc, Some name), w)"
    and "\<not> truthy overrideReturnType"
    and "getFunction_patch this e = None
         \<or> (length (the (getFunction_patch this e)) \<noteq> 1
            \<and> length (the (getFunction_patch this e)) \<noteq> 2)"
  shows "\<exists>retType oali w1 params outParams w2.
           getReturnType this e = Inr ((retType, oali), w1)
         \<and> getParameters this oali (kids e ''parameters'') = Inr ((params, outParams), w2)
         \<and> (\<forall>parameters0 others. kids e ''parameters'' = Some (parameters0 # others) \<longrightarrow>
               (\<exists>skip. getParameters_skip oali (parametersArrayOf parameters0) = Inr skip
                  \<and> outParams = map (outParamDescOf this (parametersArrayOf parameters0))
                                   (outPositions (parametersArrayOf parameters0) skip 0)))
         \<and> desc = [(if arrowType \<and> \<not> colon then [] else prefix) @ name @ ''('' @ params @ '')''
                     @ (if arrowType then '' =>'' else '':'') @ '' ''
                     @ (if retType = ''void'' \<and> length outParams = 1 then outParams ! 0
                        else if length outParams + (if retType = ''void'' then 0 else 1) > 1
                        then ''[ '' @ join '', ''
                               ((if retType = ''void'' then []
                                 else [''/* returnType */ '' @ retType]) @ outParams) @ '' ]''
                        else retType)]"
proof -
  have g: "\<not> (attrs e = None \<or> \<not> girBool (attr e ''introspectable'') True
              \<or> truthy (attr e ''shadowed-by''))"
  proof
    assume "attrs e = None \<or> \<not> girBool (attr e ''introspectable'') True
              \<or> truthy (attr e ''shadowed-by'')"
    then have "getFunction this e prefix funcNamePrefix overrideReturnType arrowType colon
                 = ret ([], None)"
      by (subst getFunction.simps) simp
    with assms(1) show False by (simp add: ret_def)
  qed
  define emit where "emit = (\<lambda>(rt :: string \<times> nat option) (ps :: string \<times> string list).
       let name0 = (if truthy (attr e ''shadows'') then attr e ''shadows'' else attr e ''name'');
           name1 = (if funcNamePrefix \<noteq> [] then Some (funcNamePrefix @ js_str name0) else name0);
           name2 = transformFunctionName (transformation this) name1;
           retType = getFunction_retType (fst rt) (snd ps) overrideReturnType;
           retSep = (if arrowType then '' =>'' else '':'');
           prefix1 = (if arrowType \<and> \<not> colon then '''' else prefix);
           name3 = (if arrowType \<and> \<not> colon then '''' else name2);
           name4 = (if colon then name3 @ '': '' else name3)
       in (ret ([prefix1 @ name4 @ ''('' @ fst ps @ '')'' @ retSep @ '' '' @ retType], Some name4)
             :: FunctionDescription result))"
  have u: "getFunction this e prefix funcNamePrefix overrideReturnType arrowType colon
        = bindR (getReturnType this e)
            (\<lambda>rt. bindR (getParameters this (snd rt) (kids e ''parameters'')) (emit rt))"
    using g assms(3)
    by (subst getFunction.simps) (auto simp: Let_def emit_def intro!: bindR_cong)
  from bindR_Inr [OF assms(1) [unfolded u]] obtain rt w1 w' where
    rt: "getReturnType this e = Inr (rt, w1)"
    and b2: "bindR (getParameters this (snd rt) (kids e ''parameters'')) (emit rt)
               = Inr ((desc, Some name), w')"
    by blast
  from bindR_Inr [OF b2] obtain ps w2 w3 where
    ps: "getParameters this (snd rt) (kids e ''parameters'') = Inr (ps, w2)"
    and em: "emit rt ps = Inr ((desc, Some name), w3)"
    by blast
  obtain retType oali where rt_eq: "rt = (retType, oali)" by (cases rt)
  obtain params outParams where ps_eq: "ps = (params, outParams)" by (cases ps)
  have outs: "\<exists>skip. getParameters_skip oali (parametersArrayOf parameters0) = Inr skip
                  \<and> outParams = map (outParamDescOf this (parametersArrayOf parameters0))
                                   (outPositions (parametersArrayOf parameters0) skip 0)"
    if "kids e ''parameters'' = Some (parameters0 # others)" for parameters0 others
    using getParameters_some [of this oali parameters0 others params outParams w2] ps that
    by (auto simp: rt_eq ps_eq)
  have R: "getFunction_retType retType outParams overrideReturnType
           = (if retType = ''void'' \<and> length outParams = 1 then outParams ! 0
              else if length outParams + (if retType = ''void'' then 0 else 1) > 1
              then ''[ '' @ join '', ''
                               ((if retType = ''void'' then []
                                 else [''/* returnType */ '' @ retType]) @ outParams) @ '' ]''
              else retType)"
    using assms(2) by (auto simp: getFunction_retType_def Let_def)
  have d: "desc = [(if arrowType \<and> \<not> colon then [] else prefix) @ name @ ''('' @ params @ '')''
                     @ (if arrowType then '' =>'' else '':'') @ '' ''
                     @ getFunction_retType retType outParams overrideReturnType]"
    using em by (auto simp: emit_def Let_def ret_def rt_eq ps_eq split: if_splits)
  have r': "getReturnType this e = Inr ((retType, oali), w1)"
    using rt by (simp add: rt_eq)
  have p': "getParameters this oali (kids e ''parameters'') = Inr ((params, outParams), w2)"
    using ps by (simp add: rt_eq ps_eq)
  have o': "\<forall>parameters0 others. kids e ''parameters'' = Some (parameters0 # others) \<longrightarrow>
               (\<exists>skip. getParameters_skip oali (parametersArrayOf parameters0) = Inr skip
                  \<and> outParams = map (outParamDescOf this (parametersArrayOf parameters0))
                                   (outPositions (parametersArrayOf parameters0) skip 0))"
    using outs by blast
  show ?thesis
    by (intro exI conjI) (rule r', rule p', rule o', rule d [unfolded R])
qed

text \<open>A function returning \<^verbatim>\<open>gboolean\<close> with two out parameters.\<close>

definition twoOuts :: GirNode where
  "twoOuts = functionNode ''f''
     [paramNode [(''name'', ''a''), (''direction'', ''out''), (''optional'', ''1'')] ''gint'',
      paramNode [(''name'', ''b''), (''direction'', ''out'')] ''utf8''] ''gboolean''"

theorem C4_return_type_witness:
  "getFunction (gjsModule []) twoOuts ''    '' [] None False False
     = Inr (([''    f(): [ /* returnType */ boolean, /* a */ number | null, /* b */ string ]''],
             Some ''f''), [])
   \<and> \<not> truthy None
   \<and> (getFunction_patch (gjsModule []) twoOuts = None
         \<or> (length (the (getFunction_patch (gjsModule []) twoOuts)) \<noteq> 1
            \<and> length (the (getFunction_patch (gjsModule []) twoOuts)) \<noteq> 2))
   \<and> (\<exists>retType oali w1 params outParams w2.
           getReturnType (gjsModule []) twoOuts = Inr ((retType, oali), w1)
         \<and> getParameters (gjsModule []) oali (kids twoOuts ''parameters'')
             = Inr ((params, outParams), w2)
         \<and> (\<forall>parameters0 others. kids twoOuts ''parameters'' = Some (parameters0 # others) \<longrightarrow>
               (\<exists>skip. getParameters_skip oali (parametersArrayOf parameters0) = Inr skip
                  \<and> outParams = map (outParamDescOf (gjsModule []) (parametersArrayOf parameters0))
                                   (outPositions (parametersArrayOf parameters0) skip 0)))
         \<and> [''    f(): [ /* returnType */ boolean, /* a */ number | null, /* b */ string ]'']
             = [(if False \<and> \<not> False then [] else ''    '') @ ''f'' @ ''('' @ params @ '')''
                     @ (if False then '' =>'' else '':'') @ '' ''
                     @ (if retType = ''void'' \<and> length outParams = 1 then outParams ! 0
                        else if length outParams + (if retType = ''void'' then 0 else 1) > 1
                        then ''[ '' @ join '', ''
                               ((if retType = ''void'' then []
                                 else [''/* returnType */ '' @ retType]) @ outParams) @ '' ]''
                        else retType)])"
proof -
  have e: "getFunction (gjsModule []) twoOuts ''    '' [] None False False
     = Inr (([''    f(): [ /* returnType */ boolean, /* a */ number | null, /* b */ string ]''],
             Some ''f''), [])"
    by code_simp
  have o: "\<not> truthy None"
    by (simp add: truthy_def)
  have p: "getFunction_patch (gjsModule []) twoOuts = None
         \<or> (length (the (getFunction_patch (gjsModule []) twoOuts)) \<noteq> 1
            \<and> length (the (getFunction_patch (gjsModule []) twoOuts)) \<noteq> 2)"
    by (simp add: getFunction_patch_def twoOuts_def functionNode_def)
  show ?thesis
    by (intro conjI e o p C4_return_type [OF e o p])
qed

subsection \<open>Properties of type resolution\<close>

text \<open>A variable whose type is the plain name \<open>n\<close>: it has no array, no callback and no
  nullable, allow-none or optional annotation, and its first type node is named \<open>n\<close>
  and has the C type \<open>c\<close> (\<open>None\<close> for a type node with no \<^verbatim>\<open>c:type\<close>).  The other
  attributes and children of the variable and its stamps are left open.\<close>

definition plainlyTyped :: "GirNode \<Rightarrow> string \<Rightarrow> string option \<Rightarrow> bool" where
  "plainlyTyped v n c =
     (kids v ''array'' = None
      \<and> (case kids v ''callback'' of Some (cb # cbs) \<Rightarrow> False | _ \<Rightarrow> True)
      \<and> \<not> paramIsNullable v
      \<and> (case kids v ''type'' of
           Some (t # ts) \<Rightarrow>
             (case attrs t of
                Some ta \<Rightarrow> map_of ta ''name'' = Some n \<and> map_of ta ''c:type'' = c
              | None \<Rightarrow> False)
         | _ \<Rightarrow> False))"

text \<open>Lines 337-342: the module whose name qualifies a type name with no dot (the
  module stamped on the variable, or else the resolving module), and the name that
  line 345 looks up.\<close>

definition qualifier :: "GirModule \<Rightarrow> GirNode \<Rightarrow> string" where
  "qualifier this v = (case node_module v of Some m \<Rightarrow> m | None \<Rightarrow> modName this)"

definition lookedUp :: "GirModule \<Rightarrow> GirNode \<Rightarrow> string \<Rightarrow> string" where
  "lookedUp this v n = (if CHR ''.'' \<notin> set n then qualifier this v @ ''.'' @ n else n)"

lemma typeLookup_plainlyTyped:
  assumes "plainlyTyped v n c"
    and "\<not> isGList n"
    and "\<not> truthy (POD_TYPE_MAP (transformation this) n)"
    and "\<not> truthy (FULL_TYPE_MAP (transformation this) (environment this) out n)"
    and "\<not> (truthy c \<and> truthy (C_TYPE_MAP (transformation this) (packageName this) [] (the c)))"
    and "modName this \<noteq> []"
  shows "typeLookup this v out = typeLookup_symbol this v (Some (lookedUp this v n)) [] []"
proof -
  from assms(1) obtain t ts ta where
    a: "kids v ''array'' = None"
    and cb: "(case kids v ''callback'' of Some (cb # cbs) \<Rightarrow> False | _ \<Rightarrow> True)"
    and nn: "\<not> paramIsNullable v"
    and ty: "kids v ''type'' = Some (t # ts)"
    and ta: "attrs t = Some ta"
    and n: "map_of ta ''name'' = Some n"
    and c: "map_of ta ''c:type'' = c"
    unfolding plainlyTyped_def by (auto split: option.splits list.splits)
  have sh: "typeLookup_shape v = Inr (Some (Some t, None, []))"
    using a ty ta n assms(2)
    by (simp add: typeLookup_shape_def typeLookup_collection_def attr_def js_str_def)
  have "typeLookup this v out = typeLookup_named this v out (Some t) None [] []"
    using cb nn
    by (subst typeLookup.simps) (simp add: sh Let_def split: option.splits list.splits)
  also have "\<dots> = typeLookup_symbol this v (Some (lookedUp this v n)) [] []"
    using ta n c assms(3,4,5,6)
    by (auto simp: typeLookup_named_def Let_def js_str_def lookedUp_def qualifier_def truthy_def
          split: option.splits)
  finally show ?thesis .
qed

lemma typeLookup_symbol_found:
  "typeLookup_symbol this v (Some F) [] [] = Inr (r, []) \<longleftrightarrow>
     F \<noteq> [] \<and> symTable this F \<noteq> None
     \<and> r = (if take (length (modName this) + 1) F = modName this @ ''.''
            then drop (length (modName this) + 1) F else F)"
  by (auto simp: typeLookup_symbol_def truthy_def ret_def split: option.splits)

text \<open>
  Claim C9, as stated: resolving a node that carries the result of a successful
  resolution gives the same string.  It fails on the code: a nullable variable of the
  local type \<open>W\<close> resolves, with no warning, to \<^verbatim>\<open>W | null\<close>; a node carrying that
  string as its type name is looked up as \<^verbatim>\<open>M.W | null\<close>, is not found, and
  resolves to \<^verbatim>\<open>any\<close> with a warning, whether or not it is nullable itself.
\<close>

theorem C9_counterexample:
  "typeLookup (moduleOf [(''M.W'', classNode ''M'' ''W'' [])])
     (paramNode [(''name'', ''a''), (''nullable'', ''1'')] ''W'') True
     = Inr (''W | null'', [])
   \<and> typeLookup (moduleOf [(''M.W'', classNode ''M'' ''W'' [])])
       (paramNode [(''name'', ''a''), (''nullable'', ''1'')] ''W | null'') True
     = Inr (''any'', [''Could not find type '' @ [CHR 0x27] @ ''M.W | null'' @ [CHR 0x27]
                       @ '' for '' @ [CHR 0x27] @ ''a'' @ [CHR 0x27]])
   \<and> typeLookup (moduleOf [(''M.W'', classNode ''M'' ''W'' [])])
       (paramNode [(''name'', ''a'')] ''W | null'') True
     = Inr (''any'', [''Could not find type '' @ [CHR 0x27] @ ''M.W | null'' @ [CHR 0x27]
                       @ '' for '' @ [CHR 0x27] @ ''a'' @ [CHR 0x27]])"
  by code_simp

text \<open>
  Claim C9, amended: resolution is idempotent on plain names that resolve through the
  symbol table.  In a module with a name, let a variable \<open>v\<close>, with any module stamp,
  have the plain type name \<open>n\<close> (no array or list shape, no callback, no nullable,
  allow-none or optional annotation), let neither \<open>n\<close> nor the C type of the type node be a key of the built-in
  type tables, and let \<open>typeLookup\<close> resolve \<open>v\<close> to \<open>r\<close> without a warning.  Let \<open>v'\<close>
  be a like variable carrying \<open>r\<close>: plain as well, with the same module stamp and the
  same C type, its type named \<open>r\<close>, where \<open>r\<close> is no key of the built-in tables and no
  list name.  If either \<open>r\<close> is the qualified name that was looked up (the name was
  found and the prefix of the resolving module was not stripped from it), or \<open>r\<close> has
  no dot left and the module that qualifies the names of \<open>v\<close> is the resolving module
  (the stamp of \<open>v\<close> is absent or carries the name of the resolving module), then \<open>v'\<close>
  resolves to \<open>r\<close> again, without a warning.  For a variable stamped with another
  module \<open>G\<close> the second case does not apply: \<^verbatim>\<open>M.W\<close> resolves to \<^verbatim>\<open>W\<close> in module
  \<open>M\<close>, and \<^verbatim>\<open>W\<close> is then looked up as \<^verbatim>\<open>G.W\<close>.
\<close>

theorem C9_resolution_fixed_point:
  assumes "typeLookup this v out = Inr (r, [])"
    and "plainlyTyped v n c"
    and "plainlyTyped v' r c"
    and "node_module v' = node_module v"
    and "\<not> isGList n"
    and "\<not> truthy (POD_TYPE_MAP (transformation this) n)"
    and "\<not> truthy (FULL_TYPE_MAP (transformation this) (environment this) out n)"
    and "\<not> (truthy c \<and> truthy (C_TYPE_MAP (transformation this) (packageName this) [] (the c)))"
    and "modName this \<noteq> []"
    and "\<not> isGList r"
    and "\<not> truthy (POD_TYPE_MAP (transformation this) r)"
    and "\<not> truthy (FULL_TYPE_MAP (transformation this) (environment this) out r)"
    and "r = lookedUp this v n \<or> (CHR ''.'' \<notin> set r \<and> qualifier this v = modName this)"
  shows "typeLookup this v' out = Inr (r, [])"
proof -
  define F where "F = lookedUp this v n"
  have q: "qualifier this v' = qualifier this v"
    using assms(4) by (simp add: qualifier_def)
  have "typeLookup_symbol this v (Some F) [] [] = Inr (r, [])"
    using assms(1) unfolding F_def
    by (simp add: typeLookup_plainlyTyped [OF assms(2,5,6,7,8,9)])
  then have F: "symTable this F \<noteq> None"
    and r: "r = (if take (length (modName this) + 1) F = modName this @ ''.''
                 then drop (length (modName this) + 1) F else F)"
    by (simp_all add: typeLookup_symbol_found)
  have dot: "CHR ''.'' \<in> set F"
    unfolding F_def lookedUp_def by simp
  have v': "typeLookup this v' out = typeLookup_symbol this v' (Some (lookedUp this v' r)) [] []"
    by (rule typeLookup_plainlyTyped [OF assms(3,10,11,12,8,9)])
  from assms(13) show ?thesis
  proof
    assume rF: "r = lookedUp this v n"
    then have "r = F" by (simp add: F_def)
    with dot have l: "lookedUp this v' r = F" by (simp add: lookedUp_def)
    show ?thesis
      unfolding v' l using F r dot by (auto simp: typeLookup_symbol_found)
  next
    assume "CHR ''.'' \<notin> set r \<and> qualifier this v = modName this"
    then have nodot: "CHR ''.'' \<notin> set r" and qm: "qualifier this v = modName this"
      by simp_all
    from nodot dot have "r \<noteq> F" by auto
    with r have p: "take (length (modName this) + 1) F = modName this @ ''.''"
      and d: "r = drop (length (modName this) + 1) F"
      by (auto split: if_splits)
    have "F = take (length (modName this) + 1) F @ drop (length (modName this) + 1) F"
      by simp
    also have "\<dots> = (modName this @ ''.'') @ r"
      by (simp only: p d)
    finally have Fr: "F = modName this @ ''.'' @ r" by simp
    have l: "lookedUp this v' r = F"
      using nodot by (simp add: lookedUp_def q qm Fr)
    show ?thesis
      unfolding v' l using F assms(9) unfolding Fr by (simp add: typeLookup_symbol_found)
  qed
qed

text \<open>Two variables of a run in module \<open>M\<close>: one stamped \<open>M\<close> whose type is written
  \<^verbatim>\<open>M.W\<close>, and one stamped \<open>G\<close> (a member inherited from a class of module \<open>G\<close>)
  whose type is written \<^verbatim>\<open>W\<close>.\<close>

definition stampedVar :: "string \<Rightarrow> string \<Rightarrow> string \<Rightarrow> GirNode" where
  "stampedVar m n ct =
     GirNode (Some [(''name'', ''a''), (''transfer-ownership'', ''none'')])
       [(''type'', [GirNode (Some [(''name'', n), (''c:type'', ct)]) [] None None])]
       (Some m) None"

definition twoModules :: GirModule where
  "twoModules = moduleOf [(''M.W'', classNode ''M'' ''W'' []), (''G.W'', classNode ''G'' ''W'' [])]"

theorem C9_resolution_fixed_point_witness:
  "typeLookup twoModules (stampedVar ''M'' ''M.W'' ''MW*'') True = Inr (''W'', [])
   \<and> typeLookup twoModules (stampedVar ''M'' ''W'' ''MW*'') True = Inr (''W'', [])
   \<and> typeLookup twoModules (stampedVar ''G'' ''W'' ''GW*'') True = Inr (''G.W'', [])
   \<and> typeLookup twoModules (stampedVar ''G'' ''G.W'' ''GW*'') True = Inr (''G.W'', [])"
proof -
  have e1: "typeLookup twoModules (stampedVar ''M'' ''M.W'' ''MW*'') True = Inr (''W'', [])"
    and e2: "typeLookup twoModules (stampedVar ''G'' ''W'' ''GW*'') True = Inr (''G.W'', [])"
    by code_simp+
  have p: "plainlyTyped (stampedVar m n ct) n (Some ct)" for m n ct
    by (simp add: plainlyTyped_def stampedVar_def kids_def paramIsNullable_def attr_def
          girBool_def truthy_def)
  have s: "node_module (stampedVar m n ct) = node_module (stampedVar m n' ct)" for m n n' ct
    by (simp add: stampedVar_def)
  have g: "\<not> isGList ''M.W''" "\<not> isGList ''W''" "\<not> isGList ''G.W''"
    by (simp_all add: isGList_def)
  have t1: "\<not> truthy (POD_TYPE_MAP (transformation twoModules) n)"
    and t2: "\<not> truthy (FULL_TYPE_MAP (transformation twoModules) (environment twoModules) True n)"
    and t3: "\<not> (truthy c \<and> truthy (C_TYPE_MAP (transformation twoModules)
                                      (packageName twoModules) [] (the c)))" for n c
    by (simp_all add: twoModules_def moduleOf_def plainTransformation_def truthy_def)
  have m: "modName twoModules \<noteq> []"
    by (simp add: twoModules_def moduleOf_def)
  have d1: "''W'' = lookedUp twoModules (stampedVar ''M'' ''M.W'' ''MW*'') ''M.W''
            \<or> (CHR ''.'' \<notin> set ''W''
               \<and> qualifier twoModules (stampedVar ''M'' ''M.W'' ''MW*'') = modName twoModules)"
    by (simp add: qualifier_def stampedVar_def twoModules_def moduleOf_def)
  have d2: "''G.W'' = lookedUp twoModules (stampedVar ''G'' ''W'' ''GW*'') ''W''
            \<or> (CHR ''.'' \<notin> set ''G.W''
               \<and> qualifier twoModules (stampedVar ''G'' ''W'' ''GW*'') = modName twoModules)"
    by (simp add: lookedUp_def qualifier_def stampedVar_def)
  show ?thesis
    by (intro conjI e1 e2
          C9_resolution_fixed_point [OF e1 p p s g(1) t1 t2 t3 m g(2) t1 t2 d1]
          C9_resolution_fixed_point [OF e2 p p s g(2) t1 t2 t3 m g(3) t1 t2 d2])
qed

section \<open>Names already claimed (gir-module.ts, lines 770-785)\<close>

text \<open>
  A \<^verbatim>\<open>LocalNames\<close> object is a plain object used as a set of names; the model keeps
  its own keys in the order they were added.  \<^verbatim>\<open>localNames[name]\<close> also finds what a
  plain object inherits from \<^verbatim>\<open>Object.prototype\<close>;
  \<^verbatim>\<open>Object.prototype.hasOwnProperty.call(o, name)\<close> looks at the own keys only.
\<close>

type_synonym LocalNames = "string list"

definition objectPrototypeKeys :: "string list" where
  "objectPrototypeKeys =
     [''constructor'', ''hasOwnProperty'', ''isPrototypeOf'', ''propertyIsEnumerable'',
      ''toLocaleString'', ''toString'', ''valueOf'', ''__proto__'', ''__defineGetter__'',
      ''__defineSetter__'', ''__lookupGetter__'', ''__lookupSetter__'']"

definition localNames_lookup :: "LocalNames \<Rightarrow> string \<Rightarrow> bool" where
  "localNames_lookup localNames name =
     (name \<in> set localNames \<or> name \<in> set objectPrototypeKeys)"

definition checkName ::
    "string list \<Rightarrow> string option \<Rightarrow> LocalNames \<Rightarrow> (string list \<times> bool) \<times> LocalNames" where
  "checkName desc name localNames =
     (if desc = [] then (([], False), localNames)
      else if \<not> truthy name then (([], False), localNames)
      else if localNames_lookup localNames (the name) then (([], False), localNames)
      else ((desc, True), localNames @ [the name]))"

section \<open>Variables and properties (gir-module.ts, lines 509-564, 805-821)\<close>

text \<open>
  From here on the warnings of \<^verbatim>\<open>this.log\<close> are not tracked: a method returns the
  value it returns in JavaScript, or the exception it raises.
\<close>

definition dropLog :: "'a result \<Rightarrow> error + 'a" where
  "dropLog r = (case r of Inl e \<Rightarrow> Inl e | Inr (x, w) \<Rightarrow> Inr x)"

definition bindE :: "error + 'a \<Rightarrow> ('a \<Rightarrow> error + 'b) \<Rightarrow> error + 'b" where
  "bindE m f = (case m of Inl e \<Rightarrow> Inl e | Inr x \<Rightarrow> f x)"

lemma bindE_cong [fundef_cong]:
  "m = m' \<Longrightarrow> (\<And>x. m' = Inr x \<Longrightarrow> f x = f' x) \<Longrightarrow> bindE m f = bindE m' f'"
  by (auto simp: bindE_def split: sum.splits)

text \<open>\<open>getVariable\<close> for \<^verbatim>\<open>type = 'property'\<close>, the one use the modelled methods make
  of it.  Line 515 reads \<^verbatim>\<open>v.$.name\<close> before line 516 tests \<^verbatim>\<open>v.$\<close>.\<close>

definition getVariable_property ::
    "GirModule \<Rightarrow> GirNode \<Rightarrow> bool \<Rightarrow> bool \<Rightarrow> error + FunctionDescription" where
  "getVariable_property this v optional allowQuotes =
     (case attrs v of
        None \<Rightarrow> Inl TypeError
      | Some a \<Rightarrow>
          if \<not> truthy (map_of a ''name'') then Inr ([], None)
          else if \<not> girBool (map_of a ''introspectable'') True \<or> girBool (map_of a ''private'') False
          then Inr ([], None)
          else
            (let name = transformPropertyName (transformation this) (the (map_of a ''name''))
                          allowQuotes
             in bindE (dropLog (typeLookupTransformed this v True))
                  (\<lambda>typeName0.
                     let nameSuffix = (if optional then ''?'' else '''');
                         typeName = transformTypeName (transformation this) typeName0
                     in Inr ([name @ nameSuffix @ '': '' @ typeName], Some name))))"

definition getProperty ::
    "GirModule \<Rightarrow> GirNode \<Rightarrow> bool \<Rightarrow> bool
       \<Rightarrow> error + string list \<times> string option \<times> string option" where
  "getProperty this v construct optional =
     (case attrs v of
        None \<Rightarrow> Inl TypeError
      | Some a \<Rightarrow>
          if girBool (map_of a ''construct-only'') False \<and> \<not> construct then Inr ([], None, None)
          else if \<not> girBool (map_of a ''writable'') False \<and> construct then Inr ([], None, None)
          else if girBool (map_of a ''private'') False then Inr ([], None, None)
          else
            (let propPrefix = (if girBool (map_of a ''writable'') False then ''''
                               else ''readonly '')
             in bindE (getVariable_property this v (construct \<and> optional) True)
                  (\<lambda>pd.
                     if \<not> truthy (snd pd) then Inr ([], None, None)
                     else
                       (let origName = (if truthy (map_of a ''name'')
                                        then Some (transformTypeName (transformation this)
                                                     (the (map_of a ''name'')))
                                        else None)
                        in Inr ([''    '' @ propPrefix @ join '','' (fst pd)], snd pd, origName)))))"



section \<open>Named methods (gir-module.ts, lines 823-836)\<close>




section \<open>Implemented interfaces (gir-module.ts, lines 709-754)\<close>

text \<open>
  \<open>forEachInterface\<close> marks the names of the \<^verbatim>\<open>implements\<close> entries in \<open>dups\<close>
  but not the prerequisites it follows, so prerequisites that form a cycle are followed
  until the call stack is exhausted.  The first argument is the number of frames the
  stack still has room for; with none left the call raises \<open>RangeError\<close>.  The result
  is the classes the callback was called with, in order, the final \<open>dups\<close> and the
  exception that ended the walk, if one did.
\<close>

function forEachInterface ::
    "nat \<Rightarrow> GirModule \<Rightarrow> GirNode \<Rightarrow> bool \<Rightarrow> string list
       \<Rightarrow> GirNode list \<times> string list \<times> error option"
  and forEachInterface_implements ::
    "nat \<Rightarrow> GirModule \<Rightarrow> GirNode list \<Rightarrow> bool \<Rightarrow> string list
       \<Rightarrow> GirNode list \<times> string list \<times> error option"
where
  "forEachInterface 0 this girClass recurseObjects dups = ([], dups, Some RangeError)"
| "forEachInterface (Suc stack) this girClass recurseObjects dups =
     (case forEachInterface_implements stack this
             (case kids girClass ''implements'' of Some is \<Rightarrow> is | None \<Rightarrow> [])
             recurseObjects dups of
        (visited1, dups1, Some e) \<Rightarrow> (visited1, dups1, Some e)
      | (visited1, dups1, None) \<Rightarrow>
          (case kids girClass ''prerequisite'' of
             None \<Rightarrow> (visited1, dups1, None)
           | Some ps \<Rightarrow>
               (case prerequisiteName ps of
                  Inl e \<Rightarrow> (visited1, dups1, Some e)
                | Inr pn \<Rightarrow>
                    if \<not> truthy pn then (visited1, dups1, None)
                    else
                      (let qualified = (if CHR ''.'' \<notin> set (the pn)
                                        then modName this @ ''.'' @ the pn else the pn)
                       in if qualified \<in> set dups1 then (visited1, dups1, None)
                          else
                            (case symTable this qualified of
                               None \<Rightarrow> (visited1, dups1, None)
                             | Some parentPtr \<Rightarrow>
                                 if kids parentPtr ''prerequisite'' \<noteq> None \<or> recurseObjects
                                 then
                                   (case forEachInterface stack this parentPtr recurseObjects
                                           dups1 of
                                      (visited2, dups2, e2) \<Rightarrow>
                                        (visited1 @ parentPtr # visited2, dups2, e2))
                                 else (visited1, dups1, None))))))"
| "forEachInterface_implements stack this [] recurseObjects dups = ([], dups, None)"
| "forEachInterface_implements stack this (i # rest) recurseObjects dups =
     (case attrs i of
        None \<Rightarrow> ([], dups, Some TypeError)
      | Some a \<Rightarrow>
          (case map_of a ''name'' of
             None \<Rightarrow> ([], dups, Some TypeError)
           | Some n \<Rightarrow>
               (let qualified = (if CHR ''.'' \<notin> set n then modName this @ ''.'' @ n else n)
                in if qualified \<in> set dups
                   then forEachInterface_implements stack this rest recurseObjects dups
                   else
                     (case symTable this qualified of
                        None \<Rightarrow>
                          forEachInterface_implements stack this rest recurseObjects
                            (dups @ [qualified])
                      | Some iface \<Rightarrow>
                          (case forEachInterface stack this iface recurseObjects
                                  (dups @ [qualified]) of
                             (visited1, dups1, Some e) \<Rightarrow> (iface # visited1, dups1, Some e)
                           | (visited1, dups1, None) \<Rightarrow>
                               (case forEachInterface_implements stack this rest recurseObjects
                                       dups1 of
                                  (visited2, dups2, e2) \<Rightarrow>
                                    (iface # visited1 @ visited2, dups2, e2)))))))"
  by pat_completeness auto
termination forEachInterface
  by (relation "inv_image (less_than <*lex*> less_than)
        (\<lambda>x. case x of
                Inl (stack, this, girClass, rest) \<Rightarrow> (2 * stack, 0)
              | Inr (stack, this, is, rest) \<Rightarrow> (2 * stack + 1, length is))")
     (auto intro: wf_inv_image)

declare forEachInterface.simps [simp del] forEachInterface_implements.simps [simp del]




text \<open>Running a callback over the sequence: its exception comes before the one of the
  walk.\<close>

fun foldE :: "('s \<Rightarrow> 'a \<Rightarrow> error + 's) \<Rightarrow> 's \<Rightarrow> 'a list \<Rightarrow> error + 's" where
  "foldE f s [] = Inr s"
| "foldE f s (x # xs) = bindE (f s x) (\<lambda>s1. foldE f s1 xs)"

definition overWalk ::
    "('s \<Rightarrow> GirNode \<Rightarrow> error + 's) \<Rightarrow> 's \<Rightarrow> GirNode list \<times> error option \<Rightarrow> error + 's" where
  "overWalk f s walk =
     bindE (foldE f s (fst walk))
       (\<lambda>s1. case snd walk of Some e \<Rightarrow> Inl e | None \<Rightarrow> Inr s1)"

section \<open>Methods with overloads (gir-module.ts, lines 38, 1226-1317)\<close>















subsection \<open>An example: a class and its parent declare a method of the same name\<close>




subsection \<open>Properties of the direct methods\<close>






subsection \<open>Two examples where no overload is declared\<close>












section \<open>Exporting the constructs of a namespace (gir-module.ts, lines 756-765, 1097-1130,
  1325-1478)\<close>

subsection \<open>Functions, callbacks and aliases\<close>

text \<open>\<open>getFunction\<close> with its default arguments, as \<open>exportFunction\<close> calls it.\<close>

definition exportFunction :: "GirModule \<Rightarrow> GirNode \<Rightarrow> error + string list" where
  "exportFunction this e =
     bindE (dropLog (getFunction this e ''export function '' [] None False False))
       (\<lambda>fd. Inr (fst fd))"

definition exportCallback :: "GirModule \<Rightarrow> GirNode \<Rightarrow> error + string list" where
  "exportCallback this e =
     (if attrs e = None \<or> \<not> girBool (attr e ''introspectable'') True then Inr []
      else
        bindE (dropLog (getReturnType this e))
          (\<lambda>rt. bindE (dropLog (getParameters this (snd rt) (kids e ''parameters'')))
             (\<lambda>ps. Inr [''export interface '' @ js_str (attr e ''name'') @ '' {'',
                         ''    ('' @ fst ps @ ''): '' @ fst rt,
                         ''}''])))"

definition exportAlias :: "GirModule \<Rightarrow> GirNode \<Rightarrow> error + string list" where
  "exportAlias this girAlias =
     (if attrs girAlias = None \<or> \<not> girBool (attr girAlias ''introspectable'') True then Inr []
      else
        bindE (dropLog (typeLookupTransformed this girAlias True))
          (\<lambda>typeName. Inr [''type '' @ js_str (attr girAlias ''name'') @ '' = '' @ typeName]))"

subsection \<open>Classes, interfaces, records and unions\<close>

definition isDerivedFromGObject :: "GirModule \<Rightarrow> GirNode \<Rightarrow> error + bool" where
  "isDerivedFromGObject this girClass =
     (case traverseInheritanceTree this girClass 0 True of
        (visited, log, Some e) \<Rightarrow> Inl e
      | (visited, log, None) \<Rightarrow>
          Inr (list_ex (\<lambda>cls. fullSymName cls = Some ''GObject.Object'') visited))"

text \<open>The two loops of lines 1116-1119 and 1125-1128, with \<open>constructPropNames\<close> passed
  along.\<close>

fun constructProps_loop ::
    "GirModule \<Rightarrow> GirNode list \<Rightarrow> LocalNames \<Rightarrow> error + string list \<times> LocalNames" where
  "constructProps_loop this [] constructPropNames = Inr ([], constructPropNames)"
| "constructProps_loop this (p # ps) constructPropNames =
     bindE (getProperty this p True True)
       (\<lambda>(desc, name, origName).
          case checkName desc name constructPropNames of
            ((aDesc, added), names1) \<Rightarrow>
              bindE (constructProps_loop this ps names1)
                (\<lambda>(def, names2). Inr (aDesc @ def, names2)))"

definition constructProps_of ::
    "GirModule \<Rightarrow> string list \<times> LocalNames \<Rightarrow> GirNode \<Rightarrow> error + string list \<times> LocalNames" where
  "constructProps_of this s iface =
     bindE (constructProps_loop this
              (case kids iface ''property'' of Some ps \<Rightarrow> ps | None \<Rightarrow> []) (snd s))
       (\<lambda>(def, names1). Inr (fst s @ def, names1))"

definition generateConstructPropsInterface ::
    "nat \<Rightarrow> GirModule \<Rightarrow> GirNode \<Rightarrow> string \<Rightarrow> string option \<Rightarrow> string option
       \<Rightarrow> error + string list" where
  "generateConstructPropsInterface stack this girClass name qualifiedParent localParent =
     bindE (isDerivedFromGObject this girClass)
       (\<lambda>isDerived.
          if \<not> isDerived then Inr []
          else
            (let ext = (if truthy qualifiedParent
                        then ''extends '' @ js_str localParent @ ''_ConstructProps ''
                        else '' '')
             in bindE (constructProps_of this ([], []) girClass)
                  (\<lambda>own.
                     bindE (if kids girClass ''implements'' = None then Inr own
                            else overWalk (constructProps_of this) own
                                   (case forEachInterface stack this girClass False [] of
                                      (visited, dups, e) \<Rightarrow> (visited, e)))
                       (\<lambda>props.
                          Inr ((''export interface '' @ name @ ''_ConstructProps '' @ ext @ ''{'')
                               # fst props @ [''}''])))))"

text \<open>Lines 1349-1364: the names after \<^verbatim>\<open>extends\<close> of an interface.  Reading
  \<^verbatim>\<open>p.$.name\<close> raises for an element with no attributes.\<close>

definition localInheritName :: "GirModule \<Rightarrow> string \<Rightarrow> string" where
  "localInheritName this name =
     (if CHR ''.'' \<in> set name \<and> hd name \<noteq> CHR ''.''
      then (let sp = split CHR ''.'' name
            in if hd sp = modName this then hd (tl sp) else name)
      else name)"

definition inheritsOf :: "GirModule \<Rightarrow> GirNode \<Rightarrow> string option \<Rightarrow> error + string list" where
  "inheritsOf this girClass localParent =
     (let prereq = (case kids girClass ''implements'' of Some is \<Rightarrow> is | None \<Rightarrow> [])
                   @ (case kids girClass ''prerequisite'' of Some ps \<Rightarrow> ps | None \<Rightarrow> [])
      in if list_ex (\<lambda>p. attrs p = None) prereq then Inl TypeError
         else
           (let inherits = map (localInheritName this)
                             (map (\<lambda>p. the (attr p ''name''))
                                (filter (\<lambda>p. attr p ''name'' \<noteq> None) prereq))
            in Inr (if truthy localParent \<and> the localParent \<notin> set inherits
                    then the localParent # inherits else inherits)))"

text \<open>
  \<open>exportClassInternal\<close>.  Lines 1372-1446, which push the members and the static side
  between the opening line and the closing brace, call the template processor, which
  is not among the sources: they are the parameter \<open>members\<close>, called with the class,
  its name, \<open>record\<close> and \<open>asInterface\<close>.
\<close>

definition exportClassInternal ::
    "nat \<Rightarrow> GirModule \<Rightarrow> (GirNode \<Rightarrow> string \<Rightarrow> bool \<Rightarrow> bool \<Rightarrow> error + string list)
       \<Rightarrow> GirNode \<Rightarrow> bool \<Rightarrow> bool \<Rightarrow> error + string list" where
  "exportClassInternal stack this members girClass record isAbstract0 =
     (let isAbstract = (isAbstract0 \<or> truthy (attr girClass ''glib:is-gtype-struct-for''))
      in bindE (getClassDetails this girClass)
           (\<lambda>details.
              case details of
                None \<Rightarrow> Inr []
              | Some d \<Rightarrow>
                  bindE (generateConstructPropsInterface stack this girClass (cd_name d)
                           (qualifiedParentName d) (localParentName d))
                    (\<lambda>constructProps.
                       let asInterface = (inheritance this \<and> \<not> record \<and> \<not> isAbstract)
                       in bindE (if isAbstract
                                 then Inr (''export abstract class '' @ cd_name d @ '' {'')
                                 else if asInterface
                                 then bindE (inheritsOf this girClass (localParentName d))
                                        (\<lambda>inherits.
                                           Inr (''export interface '' @ cd_name d
                                                @ (if inherits \<noteq> []
                                                   then '' extends '' @ join '', '' inherits
                                                   else '''')
                                                @ '' {''))
                                 else Inr (''export class '' @ cd_name d @ '' {''))
                            (\<lambda>header.
                               bindE (members girClass (cd_name d) record asInterface)
                                 (\<lambda>body. Inr (constructProps @ header # body @ [''}'']))))))"

subsection \<open>Constructs marked as not introspectable\<close>

text \<open>A class of module \<open>M\<close> with \<^verbatim>\<open>introspectable="0"\<close>, as \<open>loadTypes\<close> leaves it
  (lines 198-200 set the module and the full name of every class), and a function, a
  callback and an alias with the same mark.\<close>

definition hiddenClass :: GirNode where
  "hiddenClass =
     GirNode (Some [(''name'', ''A''), (''introspectable'', ''0'')]) [] (Some ''M'') (Some ''M.A'')"

definition hiddenFunction :: GirNode where
  "hiddenFunction =
     GirNode (Some [(''name'', ''f''), (''introspectable'', ''0'')])
       [(''return-value'', [paramNode [(''transfer-ownership'', ''none'')] ''none''])] None None"

definition hiddenAlias :: GirNode where
  "hiddenAlias =
     GirNode (Some [(''name'', ''T''), (''introspectable'', ''0'')])
       [(''type'', [typeNode ''gint''])] None None"

lemma hiddenClass_details:
  "getClassDetails (moduleOf []) hiddenClass
     = Inr (Some \<lparr> cd_name = ''A'', qualifiedName = ''M.A'', parentName = None,
                    qualifiedParentName = None, localParentName = None \<rparr>)"
  by (simp add: getClassDetails_def hiddenClass_def moduleOf_def plainTransformation_def
        js_str_def kids_def truthy_def Let_def)

lemma hiddenClass_details_inheritance:
  "getClassDetails ((moduleOf []) \<lparr> inheritance := True \<rparr>) hiddenClass
     = Inr (Some \<lparr> cd_name = ''A'', qualifiedName = ''M.A'', parentName = None,
                    qualifiedParentName = None, localParentName = None \<rparr>)"
  by (simp add: getClassDetails_def hiddenClass_def moduleOf_def plainTransformation_def
        js_str_def kids_def truthy_def Let_def)

lemma hiddenClass_not_derived:
  "isDerivedFromGObject (moduleOf []) hiddenClass = Inr False"
  "isDerivedFromGObject ((moduleOf []) \<lparr> inheritance := True \<rparr>) hiddenClass = Inr False"
  by code_simp+

text \<open>
  Claim C2 says that no construct with \<^verbatim>\<open>introspectable="0"\<close> is declared in the
  output, classes, interfaces, records and unions included.  \<open>exportFunction\<close>,
  \<open>exportCallback\<close> and \<open>exportAlias\<close> return no line for such a construct, but
  \<open>exportClassInternal\<close> never reads the attribute: for the class \<open>A\<close> marked
  \<^verbatim>\<open>introspectable="0"\<close> it returns the opening line of the class, the members and the
  closing brace, as a class, as a record or union, and as an interface.
\<close>

theorem C2_class_not_introspectable_exported:
  "girBool (attr hiddenClass ''introspectable'') True = False
   \<and> exportClassInternal stack (moduleOf []) (\<lambda>cls name record asInterface. Inr body)
         hiddenClass False False
       = Inr (''export class A {'' # body @ [''}''])
   \<and> exportClassInternal stack (moduleOf []) (\<lambda>cls name record asInterface. Inr body)
         hiddenClass True False
       = Inr (''export class A {'' # body @ [''}''])
   \<and> exportClassInternal stack ((moduleOf []) \<lparr> inheritance := True \<rparr>)
         (\<lambda>cls name record asInterface. Inr body) hiddenClass False False
       = Inr (''export interface A {'' # body @ [''}''])
   \<and> exportFunction (moduleOf []) hiddenFunction = Inr []
   \<and> exportCallback (moduleOf []) hiddenFunction = Inr []
   \<and> exportAlias (moduleOf []) hiddenAlias = Inr []"
proof -
  have g: "girBool (Some ''0'') True = False"
    by code_simp
  have a: "attr hiddenClass ''introspectable'' = Some ''0''"
          "attr hiddenFunction ''introspectable'' = Some ''0''"
          "attr hiddenAlias ''introspectable'' = Some ''0''"
    by (simp_all add: attr_def hiddenClass_def hiddenFunction_def hiddenAlias_def)
  have c: "exportClassInternal stack (moduleOf []) (\<lambda>cls name record asInterface. Inr body)
             hiddenClass r False
           = Inr (''export class A {'' # body @ [''}''])" for r
    by (simp add: exportClassInternal_def hiddenClass_details hiddenClass_not_derived
          generateConstructPropsInterface_def bindE_def Let_def)
       (simp add: hiddenClass_def attr_def truthy_def moduleOf_def)
  have i: "exportClassInternal stack ((moduleOf []) \<lparr> inheritance := True \<rparr>)
             (\<lambda>cls name record asInterface. Inr body) hiddenClass False False
           = Inr (''export interface A {'' # body @ [''}''])"
    by (simp add: exportClassInternal_def hiddenClass_details_inheritance
          hiddenClass_not_derived generateConstructPropsInterface_def bindE_def Let_def
          inheritsOf_def)
       (simp add: hiddenClass_def attr_def truthy_def moduleOf_def kids_def)
  have f: "exportFunction (moduleOf []) hiddenFunction = Inr []"
    by (simp add: exportFunction_def getFunction.simps a g ret_def dropLog_def bindE_def)
  have cb: "exportCallback (moduleOf []) hiddenFunction = Inr []"
    by (simp add: exportCallback_def a g)
  have al: "exportAlias (moduleOf []) hiddenAlias = Inr []"
    by (simp add: exportAlias_def a g)
  show ?thesis
    by (simp only: a g c i f cb al simp_thms)
qed

end
